theory Spec2Isabelle
  imports Complex_Main "HOL-Library.Sublist" "HOL-Library.Monad_Syntax"
begin

section \<open>JavaScript values used by the router\<close>

text \<open>
  The router \<^verbatim>\<open>src/routes/biens.js\<close> reads strings from \<^verbatim>\<open>req.query\<close>,
  \<^verbatim>\<open>req.params\<close> and \<^verbatim>\<open>req.body\<close>, coerces some of them with
  \<^verbatim>\<open>parseInt\<close> and \<^verbatim>\<open>parseFloat\<close>, and hands SQL text and bound
  parameters to the \<^verbatim>\<open>query\<close> collaborator.

  Strings are byte strings (ASCII). A JavaScript Number is a rational, NaN or an
  infinity: a magnitude that binary64 rounds to infinity becomes an infinity
  (\<open>js_number\<close>); rounding inside the range and the sign of zero are not modelled.
  \<open>js_sub\<close>, \<open>js_mul\<close> and \<open>js_div\<close> are the operators \<^verbatim>\<open>-\<close>, \<^verbatim>\<open>*\<close> and
  \<^verbatim>\<open>/\<close> on numbers.
\<close>

datatype jsnum = NaN | Fin rat | PosInf | NegInf

definition js_number :: "rat \<Rightarrow> jsnum" where
  "js_number r =
     (if 2 ^ 1024 - 2 ^ 970 \<le> r then PosInf
      else if r \<le> - (2 ^ 1024 - 2 ^ 970) then NegInf
      else Fin r)"

fun js_sub :: "jsnum \<Rightarrow> jsnum \<Rightarrow> jsnum" where
  "js_sub (Fin a) (Fin b) = js_number (a - b)"
| "js_sub NaN _ = NaN"
| "js_sub _ NaN = NaN"
| "js_sub PosInf PosInf = NaN"
| "js_sub NegInf NegInf = NaN"
| "js_sub PosInf _ = PosInf"
| "js_sub NegInf _ = NegInf"
| "js_sub (Fin a) PosInf = NegInf"
| "js_sub (Fin a) NegInf = PosInf"

fun js_pos :: "jsnum \<Rightarrow> bool" where
  "js_pos (Fin a) = (0 < a)"
| "js_pos PosInf = True"
| "js_pos _ = False"

fun js_mul :: "jsnum \<Rightarrow> jsnum \<Rightarrow> jsnum" where
  "js_mul (Fin a) (Fin b) = js_number (a * b)"
| "js_mul NaN _ = NaN"
| "js_mul _ NaN = NaN"
| "js_mul x y =
     (if x = Fin 0 \<or> y = Fin 0 then NaN
      else if js_pos x = js_pos y then PosInf else NegInf)"

fun js_div :: "jsnum \<Rightarrow> jsnum \<Rightarrow> jsnum" where
  "js_div (Fin a) (Fin b) =
     (if b = 0 then (if a = 0 then NaN else if 0 < a then PosInf else NegInf)
      else js_number (a / b))"
| "js_div NaN _ = NaN"
| "js_div _ NaN = NaN"
| "js_div (Fin a) _ = Fin 0"
| "js_div x (Fin b) = (if js_pos x = (0 \<le> b) then PosInf else NegInf)"
| "js_div _ _ = NaN"

text \<open>\<^verbatim>\<open>Math.ceil\<close>, \<^verbatim>\<open>isNaN\<close>, \<^verbatim>\<open>Number.isInteger\<close> and the comparison \<^verbatim>\<open>x <= y\<close>.\<close>

fun js_ceil :: "jsnum \<Rightarrow> jsnum" where
  "js_ceil (Fin a) = Fin (of_int \<lceil>a\<rceil>)"
| "js_ceil x = x"

fun isNaN :: "jsnum \<Rightarrow> bool" where
  "isNaN NaN = True"
| "isNaN _ = False"

fun isInteger :: "jsnum \<Rightarrow> bool" where
  "isInteger (Fin a) = (of_int \<lfloor>a\<rfloor> = a)"
| "isInteger _ = False"

fun js_le :: "jsnum \<Rightarrow> jsnum \<Rightarrow> bool" where
  "js_le (Fin a) (Fin b) = (a \<le> b)"
| "js_le NaN _ = False"
| "js_le _ NaN = False"
| "js_le NegInf _ = True"
| "js_le _ PosInf = True"
| "js_le _ _ = False"

subsection \<open>Strings: white space, digits, \<^verbatim>\<open>parseInt\<close> and \<^verbatim>\<open>parseFloat\<close>\<close>

definition is_space :: "char \<Rightarrow> bool" where
  "is_space c = ((9::nat) \<le> of_char c \<and> of_char c \<le> (13::nat) \<or> of_char c = (32::nat))"

definition digit_of :: "nat \<Rightarrow> char \<Rightarrow> nat option" where
  "digit_of radix c =
     (let n = (of_char c :: nat);
          d = (if 48 \<le> n \<and> n \<le> 57 then Some (n - 48)
               else if 97 \<le> n \<and> n \<le> 122 then Some (n - 87)
               else if 65 \<le> n \<and> n \<le> 90 then Some (n - 55)
               else None)
      in case d of None \<Rightarrow> None | Some v \<Rightarrow> if v < radix then Some v else None)"

definition is_digit :: "nat \<Rightarrow> char \<Rightarrow> bool" where
  "is_digit radix c = (digit_of radix c \<noteq> None)"

definition digits_value :: "nat \<Rightarrow> string \<Rightarrow> nat" where
  "digits_value radix ds =
     foldl (\<lambda>acc c. acc * radix + (case digit_of radix c of Some v \<Rightarrow> v | None \<Rightarrow> 0)) 0 ds"

text \<open>
  \<^verbatim>\<open>parseInt(string)\<close> with no radix: leading white space is skipped, one sign is
  read, a \<^verbatim>\<open>0x\<close> prefix selects radix 16, and the longest run of digits is the
  value; with no digit the result is NaN. Whatever follows the digits is ignored.
\<close>

definition parseInt :: "string \<Rightarrow> jsnum" where
  "parseInt inputString =
     (let S = dropWhile is_space inputString;
          neg = (S \<noteq> [] \<and> hd S = CHR ''-'');
          S1 = (if S \<noteq> [] \<and> (hd S = CHR ''+'' \<or> hd S = CHR ''-'') then tl S else S);
          hex = (take 2 S1 = ''0x'' \<or> take 2 S1 = ''0X'');
          R = (if hex then 16 else 10);
          S2 = (if hex then drop 2 S1 else S1);
          Z = takeWhile (is_digit R) S2
      in if Z = [] then NaN
         else js_number ((if neg then - 1 else 1) * of_nat (digits_value R Z)))"

definition exponent_part :: "string \<Rightarrow> int" where
  "exponent_part s =
     (case s of
        [] \<Rightarrow> 0
      | c # t \<Rightarrow>
          if c = CHR ''e'' \<or> c = CHR ''E'' then
            (let neg = (t \<noteq> [] \<and> hd t = CHR ''-'');
                 t1 = (if t \<noteq> [] \<and> (hd t = CHR ''+'' \<or> hd t = CHR ''-'') then tl t else t);
                 ds = takeWhile (is_digit 10) t1
             in (if neg then - 1 else 1) * int (digits_value 10 ds))
          else 0)"

definition pow10 :: "int \<Rightarrow> rat" where
  "pow10 e = (if 0 \<le> e then 10 ^ nat e else 1 / 10 ^ nat (- e))"

text \<open>
  \<^verbatim>\<open>parseFloat(string)\<close>: leading white space is skipped and the longest prefix
  that is a decimal literal (sign, \<^verbatim>\<open>Infinity\<close>, digits, fraction, exponent) is
  the value; with no such prefix the result is NaN.
\<close>

definition parseFloat :: "string \<Rightarrow> jsnum" where
  "parseFloat inputString =
     (let S = dropWhile is_space inputString;
          neg = (S \<noteq> [] \<and> hd S = CHR ''-'');
          S1 = (if S \<noteq> [] \<and> (hd S = CHR ''+'' \<or> hd S = CHR ''-'') then tl S else S)
      in if take 8 S1 = ''Infinity'' then (if neg then NegInf else PosInf)
         else
           (let ip = takeWhile (is_digit 10) S1;
                r1 = dropWhile (is_digit 10) S1;
                dot = (r1 \<noteq> [] \<and> hd r1 = CHR ''.'');
                fp = (if dot then takeWhile (is_digit 10) (tl r1) else []);
                r2 = (if dot then dropWhile (is_digit 10) (tl r1) else r1)
            in if ip = [] \<and> fp = [] then NaN
               else js_number ((if neg then - 1 else 1)
                      * of_nat (digits_value 10 (ip @ fp))
                      * pow10 (exponent_part r2 - int (length fp)))))"

section \<open>The list endpoint: \<^verbatim>\<open>GET /\<close>\<close>

subsection \<open>Query-string values\<close>

text \<open>
  A value of \<^verbatim>\<open>req.query\<close> is a string, an array (a repeated key) or a nested
  object; a key that is not in the query string is \<^verbatim>\<open>undefined\<close>, here \<open>None\<close>.
  \<open>js_toString\<close> is the conversion a template literal, \<^verbatim>\<open>parseInt\<close> and
  \<^verbatim>\<open>parseFloat\<close> apply to such a value; \<open>truthy\<close> is the test of
  \<^verbatim>\<open>if (ville)\<close>: only the empty string and \<^verbatim>\<open>undefined\<close> fail it.
\<close>

datatype qval = QStr string | QArr "qval list" | QObj "(string \<times> qval) list"

fun js_join :: "string \<Rightarrow> string list \<Rightarrow> string" where
  "js_join sep [] = []"
| "js_join sep [x] = x"
| "js_join sep (x # y # ys) = x @ sep @ js_join sep (y # ys)"

fun js_toString :: "qval \<Rightarrow> string" where
  "js_toString (QStr s) = s"
| "js_toString (QArr xs) = js_join '','' (map js_toString xs)"
| "js_toString (QObj kvs) = ''[object Object]''"

fun truthy :: "qval option \<Rightarrow> bool" where
  "truthy None = False"
| "truthy (Some (QStr s)) = (s \<noteq> [])"
| "truthy (Some (QArr xs)) = True"
| "truthy (Some (QObj kvs)) = True"

text \<open>A bound parameter is a JavaScript number or a value taken from the query string.\<close>

datatype param = PNum jsnum | PVal qval

record list_query =
  q_ville :: "qval option"
  q_type_bien :: "qval option"
  q_statut :: "qval option"
  q_prix_min :: "qval option"
  q_prix_max :: "qval option"
  q_surface_min :: "qval option"
  q_nombre_pieces_min :: "qval option"
  q_page :: "qval option"
  q_limit :: "qval option"

subsection \<open>Construction of the WHERE clause (lines 67 to 100)\<close>

text \<open>
  \<open>push_filter\<close> is one \<^verbatim>\<open>if (f) { whereConditions.push(c); queryParams.push(p) }\<close>
  block: the state is the pair of the two arrays.
\<close>

definition push_filter ::
  "qval option \<Rightarrow> string \<Rightarrow> (qval \<Rightarrow> param) \<Rightarrow> string list \<times> param list \<Rightarrow> string list \<times> param list"
where
  "push_filter f cond mk st =
     (case f of
        None \<Rightarrow> st
      | Some v \<Rightarrow> if truthy (Some v) then (fst st @ [cond], snd st @ [mk v]) else st)"

definition build_where :: "list_query \<Rightarrow> string list \<times> param list" where
  "build_where q =
     (let st0 = ([''b.statut_publication = ?''], [PVal (QStr ''publie'')]);
          st1 = push_filter (q_ville q) ''b.ville LIKE ?''
                  (\<lambda>v. PVal (QStr (''%'' @ js_toString v @ ''%''))) st0;
          st2 = push_filter (q_type_bien q) ''b.type_bien = ?'' PVal st1;
          st3 = push_filter (q_statut q) ''b.statut = ?'' PVal st2;
          st4 = push_filter (q_prix_min q) ''b.prix >= ?''
                  (\<lambda>v. PNum (parseFloat (js_toString v))) st3;
          st5 = push_filter (q_prix_max q) ''b.prix <= ?''
                  (\<lambda>v. PNum (parseFloat (js_toString v))) st4;
          st6 = push_filter (q_surface_min q) ''b.surface >= ?''
                  (\<lambda>v. PNum (parseFloat (js_toString v))) st5;
          st7 = push_filter (q_nombre_pieces_min q) ''b.nombre_pieces >= ?''
                  (\<lambda>v. PNum (parseInt (js_toString v))) st6
      in st7)"

definition whereConditions :: "list_query \<Rightarrow> string list" where
  "whereConditions q = fst (build_where q)"

definition queryParams :: "list_query \<Rightarrow> param list" where
  "queryParams q = snd (build_where q)"

definition whereClause :: "list_query \<Rightarrow> string" where
  "whereClause q = js_join '' AND '' (whereConditions q)"

text \<open>\<^verbatim>\<open>page = 1\<close> and \<^verbatim>\<open>limit = 20\<close> are the defaults of an absent key;
  \<^verbatim>\<open>parseInt(1)\<close> is 1 and \<^verbatim>\<open>parseInt(20)\<close> is 20.\<close>

definition page_number :: "list_query \<Rightarrow> jsnum" where
  "page_number q = (case q_page q of None \<Rightarrow> Fin 1 | Some v \<Rightarrow> parseInt (js_toString v))"

definition limit_number :: "list_query \<Rightarrow> jsnum" where
  "limit_number q = (case q_limit q of None \<Rightarrow> Fin 20 | Some v \<Rightarrow> parseInt (js_toString v))"

definition offset :: "list_query \<Rightarrow> jsnum" where
  "offset q = js_mul (js_sub (page_number q) (Fin 1)) (limit_number q)"

text \<open>The two SQL texts, as the template literals of lines 103 and 117 produce them.\<close>

definition countQuery :: "list_query \<Rightarrow> string" where
  "countQuery q =
     ''\<newline>      SELECT COUNT(*) as total'' @
     ''\<newline>      FROM biens b'' @
     ''\<newline>      WHERE '' @ whereClause q @
     ''\<newline>    ''"

definition mainQuery :: "list_query \<Rightarrow> string" where
  "mainQuery q =
     ''\<newline>      SELECT'' @
     ''\<newline>        b.*,'' @
     ''\<newline>        u.nom as proprietaire_nom,'' @
     ''\<newline>        u.prenom as proprietaire_prenom,'' @
     ''\<newline>        u.telephone as proprietaire_telephone,'' @
     ''\<newline>        (SELECT url_image FROM photos_biens WHERE bien_id = b.id AND est_principale = 1 LIMIT 1) as photo_principale'' @
     ''\<newline>      FROM biens b'' @
     ''\<newline>      JOIN utilisateurs u ON b.proprietaire_id = u.id'' @
     ''\<newline>      WHERE '' @ whereClause q @
     ''\<newline>      ORDER BY b.date_publication DESC'' @
     ''\<newline>      LIMIT ? OFFSET ?'' @
     ''\<newline>    ''"

definition mainParams :: "list_query \<Rightarrow> param list" where
  "mainParams q = queryParams q @ [PNum (limit_number q), PNum (offset q)]"

section \<open>The database and the \<^verbatim>\<open>query\<close> collaborator\<close>

text \<open>
  \<^verbatim>\<open>query(sql, params)\<close> comes from \<^verbatim>\<open>config/database-sqlite\<close>, which is not under
  \<^verbatim>\<open>src/\<close>: it runs a parameterized statement on the SQL engine and returns the rows,
  or throws. It is modelled by one function for each statement the router issues, on
  an explicit database state; the result is \<open>Inl\<close> when the call throws. The functions
  of the list endpoint read the WHERE clause as the list of its conjuncts
  (\<open>whereConditions\<close>, which the handler joins with \<^verbatim>\<open>AND\<close> into the text).
\<close>

text \<open>
  Modelled from the spec: the tables \<^verbatim>\<open>biens\<close>, \<^verbatim>\<open>utilisateurs\<close> and
  \<^verbatim>\<open>photos_biens\<close>, whose schema is not under \<^verbatim>\<open>src/\<close>. The columns are the
  ones the statements of the router name, with the types of the spec's data model
  (texts, decimals as rationals, integers); the publication timestamp is an integer.
  A table is the list of its rows in storage order.
\<close>

record bien_fields =
  titre :: string
  description :: string
  type_bien :: string
  statut :: string
  prix :: rat
  modalite_paiement :: string
  surface :: rat
  nombre_pieces :: int
  adresse_complete :: string
  ville :: string
  code_postal :: string
  latitude :: rat
  longitude :: rat

text \<open>
  Modelled from the spec: a row of \<^verbatim>\<open>biens\<close>: the thirteen columns the INSERT and
  UPDATE statements write, then \<^verbatim>\<open>id\<close>, the owner reference and the publication
  status and timestamp.
\<close>

record bien = bien_fields +
  id_bien :: int
  proprietaire_id :: int
  statut_publication :: string
  date_publication :: int

text \<open>Modelled from the spec: a row of \<^verbatim>\<open>utilisateurs\<close> (the columns the router reads).\<close>

record utilisateur =
  id_utilisateur :: int
  nom :: string
  prenom :: string
  telephone :: string
  email :: string

text \<open>Modelled from the spec: a row of \<^verbatim>\<open>photos_biens\<close>.\<close>

record photo =
  id_photo :: int
  bien_id :: int
  url_image :: string
  est_principale :: int

text \<open>Modelled from the spec: the state of the database, one list of rows for each table.\<close>

record db =
  biens :: "bien list"
  utilisateurs :: "utilisateur list"
  photos_biens :: "photo list"

datatype sql_error = SqlError

subsection \<open>The predicates of the WHERE clause\<close>

text \<open>
  Modelled from the spec: the case folding of the LIKE operator, which folds the ASCII
  letters only.
\<close>

definition lower_ascii :: "char \<Rightarrow> char" where
  "lower_ascii c =
     (case map_of (zip ''ABCDEFGHIJKLMNOPQRSTUVWXYZ'' ''abcdefghijklmnopqrstuvwxyz'') c of
        None \<Rightarrow> c
      | Some l \<Rightarrow> l)"

text \<open>
  Modelled from the spec: the LIKE operator of the SQL engine behind \<^verbatim>\<open>query\<close>
  (\<^verbatim>\<open>config/database-sqlite\<close>, not under \<^verbatim>\<open>src/\<close>). In the pattern \<^verbatim>\<open>%\<close>
  matches any run of characters, \<^verbatim>\<open>_\<close> matches one character, and any other
  character matches itself without regard to the case of ASCII letters; there is no
  escape character. The first argument is the pattern.
\<close>

fun sql_like :: "string \<Rightarrow> string \<Rightarrow> bool" where
  "sql_like [] [] = True"
| "sql_like [] (c # t) = False"
| "sql_like (p # ps) [] = (p = CHR ''%'' \<and> sql_like ps [])"
| "sql_like (p # ps) (c # t) =
     (if p = CHR ''%'' then sql_like ps (c # t) \<or> sql_like (p # ps) t
      else (p = CHR ''_'' \<or> lower_ascii p = lower_ascii c) \<and> sql_like ps t)"

text \<open>
  Modelled from the spec: how the engine reads one conjunct of the WHERE clause with
  its bound parameter. A text parameter is compared with a text column, a number with
  a numeric column; NaN is bound as NULL, so a comparison with it holds for no row.
  \<open>cond_accepts\<close> says that the engine knows the conjunct and can bind the parameter
  (an array or an object cannot be bound); a statement with another conjunct fails.
\<close>

definition cond_accepts :: "string \<Rightarrow> param \<Rightarrow> bool" where
  "cond_accepts c p =
     (if c \<in> set [''b.statut_publication = ?'', ''b.ville LIKE ?'', ''b.type_bien = ?'',
                   ''b.statut = ?'']
      then (case p of PVal (QStr s) \<Rightarrow> True | _ \<Rightarrow> False)
      else if c \<in> set [''b.prix >= ?'', ''b.prix <= ?'', ''b.surface >= ?'',
                        ''b.nombre_pieces >= ?'']
      then (case p of PNum n \<Rightarrow> True | _ \<Rightarrow> False)
      else False)"

text \<open>
  Modelled from the spec: the truth of one conjunct on one row of \<^verbatim>\<open>biens\<close>:
  \<^verbatim>\<open>=\<close> is equality of texts, \<^verbatim>\<open>LIKE\<close> is \<open>sql_like\<close> with the parameter as
  the pattern, \<^verbatim>\<open>>=\<close> and \<^verbatim>\<open><=\<close> compare the column with the number.
\<close>

definition cond_holds :: "string \<Rightarrow> param \<Rightarrow> bien \<Rightarrow> bool" where
  "cond_holds c p b =
     (case p of
        PVal (QStr s) \<Rightarrow>
          (if c = ''b.statut_publication = ?'' then statut_publication b = s
           else if c = ''b.ville LIKE ?'' then sql_like s (ville b)
           else if c = ''b.type_bien = ?'' then type_bien b = s
           else if c = ''b.statut = ?'' then statut b = s
           else False)
      | PNum n \<Rightarrow>
          (if c = ''b.prix >= ?'' then js_le n (Fin (prix b))
           else if c = ''b.prix <= ?'' then js_le (Fin (prix b)) n
           else if c = ''b.surface >= ?'' then js_le n (Fin (surface b))
           else if c = ''b.nombre_pieces >= ?'' then js_le n (Fin (of_int (nombre_pieces b)))
           else False)
      | _ \<Rightarrow> False)"

text \<open>
  Modelled from the spec: a row passes the WHERE clause when every conjunct holds on it
  (the conjuncts are joined with \<^verbatim>\<open>AND\<close>); the i-th parameter belongs to the i-th
  conjunct.
\<close>

definition row_matches :: "string list \<Rightarrow> param list \<Rightarrow> bien \<Rightarrow> bool" where
  "row_matches cs ps b = list_all (\<lambda>(c, p). cond_holds c p b) (zip cs ps)"

subsection \<open>The statements of the list and detail endpoints\<close>

record biens_row =
  row_bien :: bien
  proprietaire_nom :: string
  proprietaire_prenom :: string
  proprietaire_telephone :: string
  photo_principale :: "string option"

record detail_row =
  detail_bien :: bien
  detail_proprietaire_nom :: string
  detail_proprietaire_prenom :: string
  detail_proprietaire_telephone :: string
  detail_proprietaire_email :: string

text \<open>
  Modelled from the spec: \<^verbatim>\<open>FROM biens b JOIN utilisateurs u ON b.proprietaire_id = u.id\<close>,
  the inner join of the engine: one row for each pair of a property and a user whose
  id is the property's owner reference.
\<close>

definition join_utilisateurs :: "db \<Rightarrow> bien list \<Rightarrow> (bien \<times> utilisateur) list" where
  "join_utilisateurs d bs =
     concat (map (\<lambda>b. map (\<lambda>u. (b, u))
                         (filter (\<lambda>u. id_utilisateur u = proprietaire_id b) (utilisateurs d))) bs)"

text \<open>
  Modelled from the spec: the subquery
  \<^verbatim>\<open>(SELECT url_image FROM photos_biens WHERE bien_id = b.id AND est_principale = 1 LIMIT 1)\<close>,
  NULL (here \<open>None\<close>) when the property has no such photo.
\<close>

definition select_photo_principale :: "db \<Rightarrow> bien \<Rightarrow> string option" where
  "select_photo_principale d b =
     (case filter (\<lambda>ph. bien_id ph = id_bien b \<and> est_principale ph = 1) (photos_biens d) of
        [] \<Rightarrow> None
      | ph # _ \<Rightarrow> Some (url_image ph))"

text \<open>
  Modelled from the spec: the columns the main statement selects from a joined row.
\<close>

definition project_row :: "db \<Rightarrow> bien \<times> utilisateur \<Rightarrow> biens_row" where
  "project_row d bu =
     \<lparr>row_bien = fst bu,
      proprietaire_nom = nom (snd bu),
      proprietaire_prenom = prenom (snd bu),
      proprietaire_telephone = telephone (snd bu),
      photo_principale = select_photo_principale d (fst bu)\<rparr>"

text \<open>
  Modelled from the spec: the count statement of line 103. It fails when the engine
  does not accept a conjunct with its parameter, and returns one row with the column
  \<^verbatim>\<open>total\<close> otherwise.
\<close>

definition query_count :: "db \<Rightarrow> string list \<Rightarrow> param list \<Rightarrow> sql_error + nat list" where
  "query_count d cs ps =
     (if list_all2 cond_accepts cs ps
      then Inr [length (filter (row_matches cs ps) (biens d))]
      else Inl SqlError)"

text \<open>
  Modelled from the spec: the rows of the main statement of line 117 before
  \<^verbatim>\<open>LIMIT ? OFFSET ?\<close>: the join, the WHERE clause, then
  \<^verbatim>\<open>ORDER BY b.date_publication DESC\<close> (rows of equal date keep their storage order).
\<close>

definition main_rows :: "db \<Rightarrow> string list \<Rightarrow> param list \<Rightarrow> biens_row list" where
  "main_rows d cs ps =
     map (project_row d)
       (sort_key (\<lambda>bu. - date_publication (fst bu))
          (filter (\<lambda>bu. row_matches cs ps (fst bu)) (join_utilisateurs d (biens d))))"

text \<open>
  Modelled from the spec: \<^verbatim>\<open>LIMIT l OFFSET o\<close> of the engine on integers: a negative
  offset skips nothing and a negative limit keeps every row.
\<close>

definition limit_offset :: "int \<Rightarrow> int \<Rightarrow> 'a list \<Rightarrow> 'a list" where
  "limit_offset l off rows =
     (let rest = drop (nat off) rows in if l < 0 then rest else take (nat l) rest)"

text \<open>
  Modelled from the spec: the main statement. The parameters after those of the WHERE
  clause are the limit and the offset; the engine fails when one of them is not an
  integer (NaN, an infinity).
\<close>

definition query_main :: "db \<Rightarrow> string list \<Rightarrow> param list \<Rightarrow> sql_error + biens_row list" where
  "query_main d cs ps =
     (let wps = take (length cs) ps in
      case drop (length cs) ps of
        [PNum (Fin l), PNum (Fin off)] \<Rightarrow>
          if list_all2 cond_accepts cs wps \<and> isInteger (Fin l) \<and> isInteger (Fin off)
          then Inr (limit_offset \<lfloor>l\<rfloor> \<lfloor>off\<rfloor> (main_rows d cs wps))
          else Inl SqlError
      | _ \<Rightarrow> Inl SqlError)"

subsection \<open>The handler of \<^verbatim>\<open>GET /\<close> (lines 52 to 160)\<close>

datatype error_kind = ID_invalide | Bien_non_trouve | Erreur_serveur | Donnees_invalides

record pagination =
  pg_page :: jsnum
  pg_limit :: jsnum
  pg_total :: nat
  pg_pages :: jsnum

record filters_echo =
  f_ville :: "qval option"
  f_type_bien :: "qval option"
  f_statut :: "qval option"
  f_prix_min :: "qval option"
  f_prix_max :: "qval option"
  f_surface_min :: "qval option"
  f_nombre_pieces_min :: "qval option"

datatype list_response =
    List_ok "biens_row list" nat pagination filters_echo
  | List_error nat error_kind

text \<open>
  \<open>List_ok biens total pagination filters\<close> is the JSON of line 133, sent with
  status 200; \<open>List_error 500 Erreur_serveur\<close> is the answer of the \<^verbatim>\<open>catch\<close>
  block, which a failing \<^verbatim>\<open>query\<close> reaches.
\<close>

definition list_handler :: "db \<Rightarrow> list_query \<Rightarrow> list_response" where
  "list_handler d q =
     (case query_count d (whereConditions q) (queryParams q) of
        Inl e \<Rightarrow> List_error 500 Erreur_serveur
      | Inr totalResult \<Rightarrow>
          (let total = (case totalResult of [] \<Rightarrow> 0 | t # _ \<Rightarrow> t) in
           case query_main d (whereConditions q) (mainParams q) of
             Inl e \<Rightarrow> List_error 500 Erreur_serveur
           | Inr rows \<Rightarrow>
               List_ok rows total
                 \<lparr>pg_page = page_number q,
                  pg_limit = limit_number q,
                  pg_total = total,
                  pg_pages = js_ceil (js_div (Fin (of_nat total)) (limit_number q))\<rparr>
                 \<lparr>f_ville = q_ville q,
                  f_type_bien = q_type_bien q,
                  f_statut = q_statut q,
                  f_prix_min = q_prix_min q,
                  f_prix_max = q_prix_max q,
                  f_surface_min = q_surface_min q,
                  f_nombre_pieces_min = q_nombre_pieces_min q\<rparr>))"

section \<open>The detail endpoint: \<^verbatim>\<open>GET /:id\<close> (lines 163 to 216)\<close>

text \<open>
  Modelled from the spec: the columns the statement of line 177 selects from a joined row.
\<close>

definition project_detail :: "bien \<times> utilisateur \<Rightarrow> detail_row" where
  "project_detail bu =
     \<lparr>detail_bien = fst bu,
      detail_proprietaire_nom = nom (snd bu),
      detail_proprietaire_prenom = prenom (snd bu),
      detail_proprietaire_telephone = telephone (snd bu),
      detail_proprietaire_email = email (snd bu)\<rparr>"

text \<open>
  Modelled from the spec: the statement of line 177, with the parameters
  \<^verbatim>\<open>[parsedId, 'publie']\<close> for \<^verbatim>\<open>WHERE b.id = ? AND b.statut_publication = ?\<close>.
\<close>

definition query_detail :: "db \<Rightarrow> param list \<Rightarrow> sql_error + detail_row list" where
  "query_detail d ps =
     (case ps of
        [PNum n, PVal (QStr s)] \<Rightarrow>
          Inr (map project_detail
                 (filter (\<lambda>bu. n = Fin (of_int (id_bien (fst bu))) \<and> statut_publication (fst bu) = s)
                    (join_utilisateurs d (biens d))))
      | _ \<Rightarrow> Inl SqlError)"

text \<open>
  Modelled from the spec: the statement of line 199, the photos of one property as
  rows \<^verbatim>\<open>(id, url_image, est_principale)\<close>, ordered by
  \<^verbatim>\<open>est_principale DESC, id ASC\<close>.
\<close>

definition query_photos :: "db \<Rightarrow> param list \<Rightarrow> sql_error + (int \<times> string \<times> int) list" where
  "query_photos d ps =
     (case ps of
        [PNum n] \<Rightarrow>
          Inr (map (\<lambda>ph. (id_photo ph, url_image ph, est_principale ph))
                 (sort_key (\<lambda>ph. - est_principale ph)
                    (sort_key id_photo
                       (filter (\<lambda>ph. n = Fin (of_int (bien_id ph))) (photos_biens d)))))
      | _ \<Rightarrow> Inl SqlError)"

datatype detail_response =
    Detail_ok detail_row "(int \<times> string \<times> int) list"
  | Detail_error nat error_kind

definition detail_handler :: "db \<Rightarrow> string \<Rightarrow> detail_response" where
  "detail_handler d bienId =
     (let parsedId = parseInt bienId in
      if isNaN parsedId \<or> \<not> isInteger parsedId \<or> js_le parsedId (Fin 0)
      then Detail_error 400 ID_invalide
      else
        (case query_detail d [PNum parsedId, PVal (QStr ''publie'')] of
           Inl e \<Rightarrow> Detail_error 500 Erreur_serveur
         | Inr rows \<Rightarrow>
             (case rows of
                [] \<Rightarrow> Detail_error 404 Bien_non_trouve
              | bien # _ \<Rightarrow>
                  (case query_photos d [PNum parsedId] of
                     Inl e \<Rightarrow> Detail_error 500 Erreur_serveur
                   | Inr photos \<Rightarrow> Detail_ok bien photos))))"

section \<open>Creation and update: \<^verbatim>\<open>POST /\<close> and \<^verbatim>\<open>PUT /:id\<close>\<close>

subsection \<open>The validation chain \<^verbatim>\<open>bienValidation\<close> (lines 9 to 23)\<close>

text \<open>
  \<^verbatim>\<open>req.body\<close> maps a field name to its value. The validators of express-validator
  read every value as a string (a JSON number by its decimal text, an absent field as
  the empty string), so a body is a partial map from names to strings. The validators
  below follow the documented behaviour of the library, which is not part of this
  repository: \<^verbatim>\<open>trim\<close> strips white space at both ends, \<^verbatim>\<open>isLength\<close> bounds the
  length, \<^verbatim>\<open>isIn\<close> looks the string up in a list, \<^verbatim>\<open>isFloat\<close> and
  \<^verbatim>\<open>isInt\<close> test the whole string against the syntax of a number and compare its
  value with the bounds.
\<close>

type_synonym body = "string \<Rightarrow> string option"

definition field_string :: "body \<Rightarrow> string \<Rightarrow> string" where
  "field_string b k = (case b k of None \<Rightarrow> [] | Some s \<Rightarrow> s)"

definition trim :: "string \<Rightarrow> string" where
  "trim s = rev (dropWhile is_space (rev (dropWhile is_space s)))"

definition isLength :: "nat \<Rightarrow> nat \<Rightarrow> string \<Rightarrow> bool" where
  "isLength mn mx s = (mn \<le> length s \<and> length s \<le> mx)"

definition isIn :: "string list \<Rightarrow> string \<Rightarrow> bool" where
  "isIn allowed s = (s \<in> set allowed)"

definition is_sign :: "char \<Rightarrow> bool" where
  "is_sign c = (c = CHR ''+'' \<or> c = CHR ''-'')"

definition float_format :: "string \<Rightarrow> bool" where
  "float_format s =
     (let s1 = (if s \<noteq> [] \<and> is_sign (hd s) then tl s else s);
          s2 = dropWhile (is_digit 10) s1;
          s3 = (if s2 \<noteq> [] \<and> hd s2 = CHR ''.'' then dropWhile (is_digit 10) (tl s2) else s2)
      in s3 = [] \<or>
         ((hd s3 = CHR ''e'' \<or> hd s3 = CHR ''E'') \<and>
          (let t = tl s3;
               t1 = (if t \<noteq> [] \<and> is_sign (hd t) then tl t else t)
           in t1 \<noteq> [] \<and> list_all (is_digit 10) t1)))"

definition isFloat :: "rat option \<Rightarrow> rat option \<Rightarrow> string \<Rightarrow> bool" where
  "isFloat mn mx s =
     (s \<notin> set [[], ''.'', '','', ''-'', ''+''] \<and> float_format s \<and>
      (case mn of None \<Rightarrow> True | Some m \<Rightarrow> js_le (Fin m) (parseFloat s)) \<and>
      (case mx of None \<Rightarrow> True | Some m \<Rightarrow> js_le (parseFloat s) (Fin m)))"

definition int_format :: "string \<Rightarrow> bool" where
  "int_format s =
     (let s1 = (if s \<noteq> [] \<and> is_sign (hd s) then tl s else s)
      in s1 \<noteq> [] \<and> list_all (is_digit 10) s1)"

definition isInt :: "int option \<Rightarrow> string \<Rightarrow> bool" where
  "isInt mn s =
     (int_format s \<and>
      (case mn of None \<Rightarrow> True | Some m \<Rightarrow> js_le (Fin (of_int m)) (parseInt s)))"

text \<open>
  One item of \<^verbatim>\<open>errors.array()\<close>: the field whose rule failed (its \<^verbatim>\<open>msg\<close> is
  the \<^verbatim>\<open>withMessage\<close> text of that rule).
\<close>

datatype verror = Invalid_field string

definition check_field :: "string \<Rightarrow> bool \<Rightarrow> verror list" where
  "check_field k ok = (if ok then [] else [Invalid_field k])"

definition bienValidation :: "body \<Rightarrow> verror list" where
  "bienValidation b =
     check_field ''titre'' (isLength 5 150 (trim (field_string b ''titre''))) @
     check_field ''description'' (isLength 20 2000 (trim (field_string b ''description''))) @
     check_field ''type_bien''
       (isIn [''maison'', ''immeuble'', ''villa'', ''appartement'', ''terrain'']
          (field_string b ''type_bien'')) @
     check_field ''statut'' (isIn [''location'', ''vente''] (field_string b ''statut'')) @
     check_field ''prix'' (isFloat (Some (1 / 100)) None (field_string b ''prix'')) @
     check_field ''modalite_paiement''
       (isIn [''mensuel'', ''trimestriel'', ''annuel'', ''unique'']
          (field_string b ''modalite_paiement'')) @
     check_field ''surface'' (isFloat (Some (1 / 100)) None (field_string b ''surface'')) @
     check_field ''nombre_pieces'' (isInt (Some 0) (field_string b ''nombre_pieces'')) @
     check_field ''adresse_complete''
       (isLength 10 255 (trim (field_string b ''adresse_complete''))) @
     check_field ''ville'' (isLength 2 100 (trim (field_string b ''ville''))) @
     check_field ''code_postal'' (isLength 4 20 (trim (field_string b ''code_postal''))) @
     check_field ''latitude'' (isFloat (Some (- 90)) (Some 90) (field_string b ''latitude'')) @
     check_field ''longitude'' (isFloat (Some (- 180)) (Some 180) (field_string b ''longitude''))"

text \<open>The \<^verbatim>\<open>trim()\<close> sanitizers of the chain write the trimmed text back to the body.\<close>

definition sanitize_body :: "body \<Rightarrow> body" where
  "sanitize_body b =
     b(''titre'' \<mapsto> trim (field_string b ''titre''),
       ''description'' \<mapsto> trim (field_string b ''description''),
       ''adresse_complete'' \<mapsto> trim (field_string b ''adresse_complete''),
       ''ville'' \<mapsto> trim (field_string b ''ville''),
       ''code_postal'' \<mapsto> trim (field_string b ''code_postal''))"

subsection \<open>The statements of creation and update\<close>

text \<open>
  Modelled from the spec: how the engine stores a bound text in a numeric column and
  compares it with one. A text that is a decimal literal (white space around it
  allowed) stands for its value; any other text stands for no number.
\<close>

definition sql_numeric :: "string \<Rightarrow> rat option" where
  "sql_numeric s =
     (if float_format (trim s)
      then (case parseFloat (trim s) of Fin r \<Rightarrow> Some r | _ \<Rightarrow> None)
      else None)"

text \<open>
  Modelled from the spec: the same for an integer column: the value must be an integer.
\<close>

definition sql_integer :: "string \<Rightarrow> int option" where
  "sql_integer s =
     (case sql_numeric s of
        None \<Rightarrow> None
      | Some r \<Rightarrow> if of_int \<lfloor>r\<rfloor> = r then Some \<lfloor>r\<rfloor> else None)"

text \<open>
  Modelled from the spec: the thirteen values bound by the INSERT and UPDATE
  statements, as the columns store them. The engine rejects the statement when a
  value is absent or does not convert to the type of its column.
\<close>

definition column_values :: "body \<Rightarrow> bien_fields option" where
  "column_values b =
     do {
       t \<leftarrow> b ''titre'';
       de \<leftarrow> b ''description'';
       ty \<leftarrow> b ''type_bien'';
       st \<leftarrow> b ''statut'';
       p \<leftarrow> Option.bind (b ''prix'') sql_numeric;
       mo \<leftarrow> b ''modalite_paiement'';
       su \<leftarrow> Option.bind (b ''surface'') sql_numeric;
       n \<leftarrow> Option.bind (b ''nombre_pieces'') sql_integer;
       ad \<leftarrow> b ''adresse_complete'';
       vi \<leftarrow> b ''ville'';
       cp \<leftarrow> b ''code_postal'';
       la \<leftarrow> Option.bind (b ''latitude'') sql_numeric;
       lo \<leftarrow> Option.bind (b ''longitude'') sql_numeric;
       Some \<lparr>titre = t, description = de, type_bien = ty, statut = st, prix = p,
             modalite_paiement = mo, surface = su, nombre_pieces = n,
             adresse_complete = ad, ville = vi, code_postal = cp,
             latitude = la, longitude = lo\<rparr>
     }"

text \<open>
  Modelled from the spec: \<^verbatim>\<open>WHERE id = ?\<close> with a number, or with the text of the
  path parameter, which the engine compares with the integer column by its numeric value.
\<close>

definition id_matches :: "param \<Rightarrow> int \<Rightarrow> bool" where
  "id_matches p i =
     (case p of
        PNum n \<Rightarrow> n = Fin (of_int i)
      | PVal (QStr s) \<Rightarrow> sql_numeric s = Some (of_int i)
      | _ \<Rightarrow> False)"

text \<open>
  Modelled from the spec: the SET list of the UPDATE statement of line 301 on one row:
  the thirteen columns it names take the bound values.
\<close>

definition set_fields :: "bien_fields \<Rightarrow> bien \<Rightarrow> bien" where
  "set_fields f r =
     r\<lparr>titre := titre f, description := description f, type_bien := type_bien f,
       statut := statut f, prix := prix f, modalite_paiement := modalite_paiement f,
       surface := surface f, nombre_pieces := nombre_pieces f,
       adresse_complete := adresse_complete f, ville := ville f,
       code_postal := code_postal f, latitude := latitude f, longitude := longitude f\<rparr>"

text \<open>
  Modelled from the spec: the UPDATE statement of line 301. Its last parameter is the
  path parameter \<^verbatim>\<open>req.params.id\<close>, a string.
\<close>

definition query_update :: "db \<Rightarrow> body \<Rightarrow> string \<Rightarrow> sql_error + db" where
  "query_update d b bienId =
     (case column_values b of
        None \<Rightarrow> Inl SqlError
      | Some f \<Rightarrow>
          Inr (d\<lparr>biens := map (\<lambda>r. if id_matches (PVal (QStr bienId)) (id_bien r)
                                    then set_fields f r else r) (biens d)\<rparr>))"

text \<open>
  Modelled from the spec: the INSERT statement of line 242. The new row takes the next
  id; the defaults of the columns the statement does not name (publication status and
  timestamp) are parameters, the schema being absent. The result is the new database
  and \<^verbatim>\<open>insertId\<close>.
\<close>

definition query_insert :: "db \<Rightarrow> int \<Rightarrow> body \<Rightarrow> string \<Rightarrow> int \<Rightarrow> sql_error + db \<times> int" where
  "query_insert d user_id b default_statut_publication now =
     (case column_values b of
        None \<Rightarrow> Inl SqlError
      | Some f \<Rightarrow>
          (let insertId = 1 + fold max (map id_bien (biens d)) 0;
               r = bien_fields.extend f
                     (bien.fields insertId user_id default_statut_publication now)
           in Inr (d\<lparr>biens := biens d @ [r]\<rparr>, insertId)))"

text \<open>Modelled from the spec: \<^verbatim>\<open>SELECT * FROM biens WHERE id = ?\<close>.\<close>

definition query_by_id :: "db \<Rightarrow> param \<Rightarrow> sql_error + bien list" where
  "query_by_id d p =
     (case p of
        PVal (QArr xs) \<Rightarrow> Inl SqlError
      | PVal (QObj kvs) \<Rightarrow> Inl SqlError
      | _ \<Rightarrow> Inr (filter (\<lambda>r. id_matches p (id_bien r)) (biens d)))"

subsection \<open>The handlers (lines 219 to 276 and 279 to 332)\<close>

datatype write_response =
    Created "bien option"
  | Updated "bien option"
  | Validation_failed "verror list"
  | Write_error nat error_kind

text \<open>
  \<open>Created\<close> is sent with status 201, \<open>Updated\<close> with 200 and \<open>Validation_failed\<close>
  with 400 (\<^verbatim>\<open>details\<close> holds the items). The option is \<^verbatim>\<open>rows[0]\<close> of the row
  read back. The handlers run after the authentication middleware and the validation
  chain: \<open>errs\<close> is \<^verbatim>\<open>validationResult(req)\<close>, \<open>user_id\<close> is \<^verbatim>\<open>req.user.id\<close> and
  \<open>b\<close> is \<^verbatim>\<open>req.body\<close> as the handler reads it.
\<close>

definition first_row :: "'a list \<Rightarrow> 'a option" where
  "first_row rows = (case rows of [] \<Rightarrow> None | r # _ \<Rightarrow> Some r)"

definition post_handler ::
  "verror list \<Rightarrow> int \<Rightarrow> body \<Rightarrow> string \<Rightarrow> int \<Rightarrow> db \<Rightarrow> write_response \<times> db" where
  "post_handler errs user_id b default_statut_publication now d =
     (if errs \<noteq> [] then (Validation_failed errs, d)
      else
        (case query_insert d user_id b default_statut_publication now of
           Inl e \<Rightarrow> (Write_error 500 Erreur_serveur, d)
         | Inr (d', insertId) \<Rightarrow>
             (case query_by_id d' (PNum (Fin (of_int insertId))) of
                Inl e \<Rightarrow> (Write_error 500 Erreur_serveur, d')
              | Inr nouveauBien \<Rightarrow> (Created (first_row nouveauBien), d'))))"

definition put_handler :: "verror list \<Rightarrow> string \<Rightarrow> body \<Rightarrow> db \<Rightarrow> write_response \<times> db" where
  "put_handler errs bienId b d =
     (if errs \<noteq> [] then (Validation_failed errs, d)
      else
        (case query_update d b bienId of
           Inl e \<Rightarrow> (Write_error 500 Erreur_serveur, d)
         | Inr d' \<Rightarrow>
             (case query_by_id d' (PVal (QStr bienId)) of
                Inl e \<Rightarrow> (Write_error 500 Erreur_serveur, d')
              | Inr bienMisAJour \<Rightarrow> (Updated (first_row bienMisAJour), d'))))"

text \<open>
  The routes: the validation chain runs on the request body, then the handler reads
  the sanitized body and the validation result.
\<close>

definition post_route :: "int \<Rightarrow> body \<Rightarrow> string \<Rightarrow> int \<Rightarrow> db \<Rightarrow> write_response \<times> db" where
  "post_route user_id b default_statut_publication now d =
     post_handler (bienValidation b) user_id (sanitize_body b) default_statut_publication now d"

definition put_route :: "string \<Rightarrow> body \<Rightarrow> db \<Rightarrow> write_response \<times> db" where
  "put_route bienId b d = put_handler (bienValidation b) bienId (sanitize_body b) d"

section \<open>Auxiliary notions for the statements\<close>

text \<open>
  The parameters one filter contributes: none when the filter fails the truthiness
  test of the handler, the value built from it otherwise.
\<close>

definition bound_value :: "qval option \<Rightarrow> (qval \<Rightarrow> param) \<Rightarrow> param list" where
  "bound_value f mk =
     (case f of None \<Rightarrow> [] | Some v \<Rightarrow> if truthy (Some v) then [mk v] else [])"

text \<open>The answer of the list endpoint without the echo of the filters.\<close>

definition list_result ::
  "list_response \<Rightarrow> (biens_row list \<times> nat \<times> pagination) + (nat \<times> error_kind)" where
  "list_result r =
     (case r of
        List_ok rows n pg f \<Rightarrow> Inl (rows, n, pg)
      | List_error st e \<Rightarrow> Inr (st, e))"

section \<open>Example requests and databases\<close>

definition no_filters :: list_query where
  "no_filters =
     \<lparr>q_ville = None, q_type_bien = None, q_statut = None, q_prix_min = None,
      q_prix_max = None, q_surface_min = None, q_nombre_pieces_min = None,
      q_page = None, q_limit = None\<rparr>"

definition query_paris :: list_query where
  "query_paris = no_filters\<lparr>q_ville := Some (QStr ''Paris''), q_prix_max := Some (QStr ''250000'')\<rparr>"

definition query_injection :: list_query where
  "query_injection =
     no_filters\<lparr>q_ville := Some (QStr ''x; DROP TABLE biens; --''),
                q_prix_max := Some (QStr ''1 OR 1=1'')\<rparr>"

definition mk_bien :: "int \<Rightarrow> int \<Rightarrow> string \<Rightarrow> string \<Rightarrow> int \<Rightarrow> bien" where
  "mk_bien i owner v sp dt =
     \<lparr>titre = ''Maison de ville'', description = ''Une maison avec jardin'',
      type_bien = ''maison'', statut = ''vente'', prix = 100000,
      modalite_paiement = ''unique'', surface = 80, nombre_pieces = 4,
      adresse_complete = ''1 rue de la Paix'', ville = v, code_postal = ''75001'',
      latitude = 48, longitude = 2,
      id_bien = i, proprietaire_id = owner, statut_publication = sp, date_publication = dt\<rparr>"

definition user_anne :: utilisateur where
  "user_anne =
     \<lparr>id_utilisateur = 1, nom = ''Durand'', prenom = ''Anne'',
      telephone = ''0102030405'', email = ''anne@example.org''\<rparr>"

definition db_example :: db where
  "db_example =
     \<lparr>biens = [mk_bien 1 1 ''Paris'' ''publie'' 10, mk_bien 2 1 ''Lyon'' ''brouillon'' 20],
      utilisateurs = [user_anne], photos_biens = []\<rparr>"

text \<open>A database with a published property whose owner is not in \<^verbatim>\<open>utilisateurs\<close>.\<close>

definition db_orphan :: db where
  "db_orphan =
     \<lparr>biens = [mk_bien 3 7 ''Paris'' ''publie'' 30], utilisateurs = [user_anne],
      photos_biens = []\<rparr>"


definition db_five :: db where
  "db_five =
     \<lparr>biens = [mk_bien 1 1 ''Paris'' ''publie'' 10, mk_bien 2 1 ''Lyon'' ''publie'' 20,
               mk_bien 3 1 ''Nice'' ''publie'' 30, mk_bien 4 1 ''Lille'' ''publie'' 40,
               mk_bien 5 1 ''Brest'' ''publie'' 50],
      utilisateurs = [user_anne], photos_biens = []\<rparr>"

definition query_page2 :: list_query where
  "query_page2 = no_filters\<lparr>q_page := Some (QStr ''2''), q_limit := Some (QStr ''2'')\<rparr>"

definition query_par :: list_query where
  "query_par = no_filters\<lparr>q_ville := Some (QStr ''par'')\<rparr>"

definition query_wildcard :: list_query where
  "query_wildcard = no_filters\<lparr>q_ville := Some (QStr ''p_r'')\<rparr>"

definition valid_body :: body where
  "valid_body =
     [''titre'' \<mapsto> ''Maison de ville'',
      ''description'' \<mapsto> ''Une maison avec jardin'',
      ''type_bien'' \<mapsto> ''maison'',
      ''statut'' \<mapsto> ''vente'',
      ''prix'' \<mapsto> ''0.01'',
      ''modalite_paiement'' \<mapsto> ''unique'',
      ''surface'' \<mapsto> ''0.01'',
      ''nombre_pieces'' \<mapsto> ''4'',
      ''adresse_complete'' \<mapsto> ''1 rue de la Paix'',
      ''ville'' \<mapsto> ''Paris'',
      ''code_postal'' \<mapsto> ''75001'',
      ''latitude'' \<mapsto> ''48.85'',
      ''longitude'' \<mapsto> ''2.35'']"

definition zero_prix_body :: body where
  "zero_prix_body = valid_body(''prix'' \<mapsto> ''0'')"

definition zero_surface_body :: body where
  "zero_surface_body = valid_body(''surface'' \<mapsto> ''0'')"

definition created_row :: bien where
  "created_row =
     \<lparr>titre = ''Maison de ville'', description = ''Une maison avec jardin'',
      type_bien = ''maison'', statut = ''vente'', prix = 1 / 100,
      modalite_paiement = ''unique'', surface = 1 / 100, nombre_pieces = 4,
      adresse_complete = ''1 rue de la Paix'', ville = ''Paris'', code_postal = ''75001'',
      latitude = 977 / 20, longitude = 47 / 20,
      id_bien = 3, proprietaire_id = 1, statut_publication = ''brouillon'',
      date_publication = 100\<rparr>"

definition update_body :: body where
  "update_body =
     valid_body(''titre'' \<mapsto> ''Maison renovee'', ''prix'' \<mapsto> ''250000'', ''ville'' \<mapsto> ''Lyon'')"

definition updated_row :: bien where
  "updated_row =
     \<lparr>titre = ''Maison renovee'', description = ''Une maison avec jardin'',
      type_bien = ''maison'', statut = ''vente'', prix = 250000,
      modalite_paiement = ''unique'', surface = 1 / 100, nombre_pieces = 4,
      adresse_complete = ''1 rue de la Paix'', ville = ''Lyon'', code_postal = ''75001'',
      latitude = 977 / 20, longitude = 47 / 20,
      id_bien = 1, proprietaire_id = 1, statut_publication = ''publie'',
      date_publication = 10\<rparr>"

definition db_updated :: db where
  "db_updated = db_example\<lparr>biens := [updated_row, mk_bien 2 1 ''Lyon'' ''brouillon'' 20]\<rparr>"

section \<open>The WHERE clause and its parameters\<close>

lemma push_filter_closed:
  "push_filter f c mk st = (fst st @ (if truthy f then [c] else []), snd st @ bound_value f mk)"
  by (cases f) (simp_all add: push_filter_def bound_value_def)

lemma whereConditions_closed:
  "whereConditions q =
     [''b.statut_publication = ?''] @
     (if truthy (q_ville q) then [''b.ville LIKE ?''] else []) @
     (if truthy (q_type_bien q) then [''b.type_bien = ?''] else []) @
     (if truthy (q_statut q) then [''b.statut = ?''] else []) @
     (if truthy (q_prix_min q) then [''b.prix >= ?''] else []) @
     (if truthy (q_prix_max q) then [''b.prix <= ?''] else []) @
     (if truthy (q_surface_min q) then [''b.surface >= ?''] else []) @
     (if truthy (q_nombre_pieces_min q) then [''b.nombre_pieces >= ?''] else [])"
  unfolding whereConditions_def build_where_def Let_def push_filter_closed fst_conv snd_conv
  by (simp only: append_assoc)

lemma queryParams_closed:
  "queryParams q =
     [PVal (QStr ''publie'')] @
     bound_value (q_ville q) (\<lambda>v. PVal (QStr (''%'' @ js_toString v @ ''%''))) @
     bound_value (q_type_bien q) PVal @
     bound_value (q_statut q) PVal @
     bound_value (q_prix_min q) (\<lambda>v. PNum (parseFloat (js_toString v))) @
     bound_value (q_prix_max q) (\<lambda>v. PNum (parseFloat (js_toString v))) @
     bound_value (q_surface_min q) (\<lambda>v. PNum (parseFloat (js_toString v))) @
     bound_value (q_nombre_pieces_min q) (\<lambda>v. PNum (parseInt (js_toString v)))"
  unfolding queryParams_def build_where_def Let_def push_filter_closed fst_conv snd_conv
  by (simp only: append_assoc)

lemma length_bound_value: "length (bound_value f mk) = (if truthy f then 1 else 0)"
  by (cases f) (simp_all add: bound_value_def)

lemma filter_present_step:
  "map fst (filter (\<lambda>(c, f). truthy f) ((c, f) # rest)) =
     (if truthy f then [c] else []) @ map fst (filter (\<lambda>(c, f). truthy f) rest)"
  by simp

text \<open>
  Claim C1. Two requests whose filters pass the handler's presence tests
  (\<^verbatim>\<open>if (ville)\<close>, ...) in the same way get the same count statement and the same
  main statement, whatever the values of the filters, of the page and of the limit:
  the SQL text depends on which filters are present only. The values are in the bound
  parameters: after \<^verbatim>\<open>'publie'\<close>, one parameter for each present filter in the
  order of the handler (the city between two \<^verbatim>\<open>%\<close>, the numbers parsed), and for
  the main statement the limit and the offset.
\<close>

theorem sql_text_depends_on_presence_only:
  assumes "truthy (q_ville q) = truthy (q_ville q')"
      and "truthy (q_type_bien q) = truthy (q_type_bien q')"
      and "truthy (q_statut q) = truthy (q_statut q')"
      and "truthy (q_prix_min q) = truthy (q_prix_min q')"
      and "truthy (q_prix_max q) = truthy (q_prix_max q')"
      and "truthy (q_surface_min q) = truthy (q_surface_min q')"
      and "truthy (q_nombre_pieces_min q) = truthy (q_nombre_pieces_min q')"
  shows "countQuery q = countQuery q' \<and> mainQuery q = mainQuery q'
       \<and> queryParams q =
           PVal (QStr ''publie'') #
           bound_value (q_ville q) (\<lambda>v. PVal (QStr (''%'' @ js_toString v @ ''%''))) @
           bound_value (q_type_bien q) PVal @
           bound_value (q_statut q) PVal @
           bound_value (q_prix_min q) (\<lambda>v. PNum (parseFloat (js_toString v))) @
           bound_value (q_prix_max q) (\<lambda>v. PNum (parseFloat (js_toString v))) @
           bound_value (q_surface_min q) (\<lambda>v. PNum (parseFloat (js_toString v))) @
           bound_value (q_nombre_pieces_min q) (\<lambda>v. PNum (parseInt (js_toString v)))
       \<and> mainParams q = queryParams q @ [PNum (limit_number q), PNum (offset q)]"
proof -
  have "whereConditions q = whereConditions q'"
    unfolding whereConditions_closed using assms by (simp only:)
  then have "whereClause q = whereClause q'"
    by (simp only: whereClause_def)
  then have "countQuery q = countQuery q' \<and> mainQuery q = mainQuery q'"
    by (simp only: countQuery_def mainQuery_def)
  moreover have "queryParams q =
           PVal (QStr ''publie'') #
           bound_value (q_ville q) (\<lambda>v. PVal (QStr (''%'' @ js_toString v @ ''%''))) @
           bound_value (q_type_bien q) PVal @
           bound_value (q_statut q) PVal @
           bound_value (q_prix_min q) (\<lambda>v. PNum (parseFloat (js_toString v))) @
           bound_value (q_prix_max q) (\<lambda>v. PNum (parseFloat (js_toString v))) @
           bound_value (q_surface_min q) (\<lambda>v. PNum (parseFloat (js_toString v))) @
           bound_value (q_nombre_pieces_min q) (\<lambda>v. PNum (parseInt (js_toString v)))"
    unfolding queryParams_closed by (simp only: append_Cons append_Nil)
  moreover have "mainParams q = queryParams q @ [PNum (limit_number q), PNum (offset q)]"
    by (simp only: mainParams_def)
  ultimately show ?thesis by (simp only: simp_thms)
qed

theorem sql_text_depends_on_presence_only_witness:
  "countQuery query_paris = countQuery query_injection
   \<and> mainQuery query_paris = mainQuery query_injection
   \<and> queryParams query_paris \<noteq> queryParams query_injection"
proof -
  have "countQuery query_paris = countQuery query_injection
        \<and> mainQuery query_paris = mainQuery query_injection"
    using sql_text_depends_on_presence_only [of query_paris query_injection]
    by (simp add: query_paris_def query_injection_def no_filters_def)
  moreover have "queryParams query_paris \<noteq> queryParams query_injection"
    by (simp add: queryParams_closed bound_value_def query_paris_def query_injection_def
          no_filters_def)
  ultimately show ?thesis by (simp only: simp_thms)
qed

text \<open>
  Claim C5. The list of conjuncts is the published-only predicate followed by the
  predicates of the present filters, one for each and in the order of the handler; an
  absent filter adds nothing. The WHERE clause joins them with \<^verbatim>\<open>AND\<close>, and there
  is one bound parameter for each conjunct.
\<close>

theorem where_clause_one_conjunct_per_present_filter:
  "whereConditions q =
     ''b.statut_publication = ?'' #
       map fst (filter (\<lambda>(c, f). truthy f)
         [(''b.ville LIKE ?'', q_ville q),
          (''b.type_bien = ?'', q_type_bien q),
          (''b.statut = ?'', q_statut q),
          (''b.prix >= ?'', q_prix_min q),
          (''b.prix <= ?'', q_prix_max q),
          (''b.surface >= ?'', q_surface_min q),
          (''b.nombre_pieces >= ?'', q_nombre_pieces_min q)])
   \<and> whereClause q = js_join '' AND '' (whereConditions q)
   \<and> length (queryParams q) = length (whereConditions q)"
proof -
  have a: "whereConditions q =
     ''b.statut_publication = ?'' #
       map fst (filter (\<lambda>(c, f). truthy f)
         [(''b.ville LIKE ?'', q_ville q),
          (''b.type_bien = ?'', q_type_bien q),
          (''b.statut = ?'', q_statut q),
          (''b.prix >= ?'', q_prix_min q),
          (''b.prix <= ?'', q_prix_max q),
          (''b.surface >= ?'', q_surface_min q),
          (''b.nombre_pieces >= ?'', q_nombre_pieces_min q)])"
    unfolding whereConditions_closed filter_present_step
    by (simp only: filter.simps list.map append_Nil2 append_Cons append_Nil)
  have c: "length (queryParams q) = length (whereConditions q)"
    unfolding whereConditions_closed queryParams_closed
    by (simp only: length_append length_bound_value) simp
  show ?thesis using a c by (simp only: whereClause_def simp_thms)
qed

lemma length_where: "length (queryParams q) = length (whereConditions q)"
  unfolding whereConditions_closed queryParams_closed
  by (simp only: length_append length_bound_value) simp

lemma mainParams_split:
  "take (length (whereConditions q)) (mainParams q) = queryParams q"
  "drop (length (whereConditions q)) (mainParams q) = [PNum (limit_number q), PNum (offset q)]"
  by (simp_all add: mainParams_def length_where)

section \<open>Empty filter values\<close>

lemma build_where_empty_string:
  "build_where (q\<lparr>q_ville := Some (QStr [])\<rparr>) = build_where (q\<lparr>q_ville := None\<rparr>)"
  "build_where (q\<lparr>q_type_bien := Some (QStr [])\<rparr>) = build_where (q\<lparr>q_type_bien := None\<rparr>)"
  "build_where (q\<lparr>q_statut := Some (QStr [])\<rparr>) = build_where (q\<lparr>q_statut := None\<rparr>)"
  "build_where (q\<lparr>q_prix_min := Some (QStr [])\<rparr>) = build_where (q\<lparr>q_prix_min := None\<rparr>)"
  "build_where (q\<lparr>q_prix_max := Some (QStr [])\<rparr>) = build_where (q\<lparr>q_prix_max := None\<rparr>)"
  "build_where (q\<lparr>q_surface_min := Some (QStr [])\<rparr>) = build_where (q\<lparr>q_surface_min := None\<rparr>)"
  "build_where (q\<lparr>q_nombre_pieces_min := Some (QStr [])\<rparr>) =
     build_where (q\<lparr>q_nombre_pieces_min := None\<rparr>)"
  by (simp_all add: build_where_def push_filter_def)

lemma list_result_cong:
  assumes "build_where q = build_where q'" "q_page q = q_page q'" "q_limit q = q_limit q'"
  shows "list_result (list_handler d q) = list_result (list_handler d q')"
proof -
  have w: "whereConditions q = whereConditions q'" "queryParams q = queryParams q'"
    using assms(1) by (simp_all add: whereConditions_def queryParams_def)
  have n: "page_number q = page_number q'" "limit_number q = limit_number q'"
    using assms(2,3) by (simp_all add: page_number_def limit_number_def)
  have m: "mainParams q = mainParams q'"
    by (simp add: mainParams_def offset_def w n)
  show ?thesis
    by (simp add: list_handler_def list_result_def w n m Let_def split: sum.splits list.splits)
qed

text \<open>
  Claim C10. A filter whose value is the empty string fails the presence test of the
  handler, so it is treated as an absent filter: for each of the seven filters, the
  request with the empty string builds the same conjuncts and the same bound
  parameters as the request without the key (\<open>build_where\<close> gives both), and the
  answer (rows, total and pagination, or the error) is the same for every database.
  Only the echo of the filters in the answer tells the two requests apart.
\<close>

theorem empty_string_filter_is_absent:
  "(build_where (q\<lparr>q_ville := Some (QStr [])\<rparr>) = build_where (q\<lparr>q_ville := None\<rparr>)
    \<and> list_result (list_handler d (q\<lparr>q_ville := Some (QStr [])\<rparr>)) =
        list_result (list_handler d (q\<lparr>q_ville := None\<rparr>)))
 \<and> (build_where (q\<lparr>q_type_bien := Some (QStr [])\<rparr>) = build_where (q\<lparr>q_type_bien := None\<rparr>)
    \<and> list_result (list_handler d (q\<lparr>q_type_bien := Some (QStr [])\<rparr>)) =
        list_result (list_handler d (q\<lparr>q_type_bien := None\<rparr>)))
 \<and> (build_where (q\<lparr>q_statut := Some (QStr [])\<rparr>) = build_where (q\<lparr>q_statut := None\<rparr>)
    \<and> list_result (list_handler d (q\<lparr>q_statut := Some (QStr [])\<rparr>)) =
        list_result (list_handler d (q\<lparr>q_statut := None\<rparr>)))
 \<and> (build_where (q\<lparr>q_prix_min := Some (QStr [])\<rparr>) = build_where (q\<lparr>q_prix_min := None\<rparr>)
    \<and> list_result (list_handler d (q\<lparr>q_prix_min := Some (QStr [])\<rparr>)) =
        list_result (list_handler d (q\<lparr>q_prix_min := None\<rparr>)))
 \<and> (build_where (q\<lparr>q_prix_max := Some (QStr [])\<rparr>) = build_where (q\<lparr>q_prix_max := None\<rparr>)
    \<and> list_result (list_handler d (q\<lparr>q_prix_max := Some (QStr [])\<rparr>)) =
        list_result (list_handler d (q\<lparr>q_prix_max := None\<rparr>)))
 \<and> (build_where (q\<lparr>q_surface_min := Some (QStr [])\<rparr>) =
      build_where (q\<lparr>q_surface_min := None\<rparr>)
    \<and> list_result (list_handler d (q\<lparr>q_surface_min := Some (QStr [])\<rparr>)) =
        list_result (list_handler d (q\<lparr>q_surface_min := None\<rparr>)))
 \<and> (build_where (q\<lparr>q_nombre_pieces_min := Some (QStr [])\<rparr>) =
      build_where (q\<lparr>q_nombre_pieces_min := None\<rparr>)
    \<and> list_result (list_handler d (q\<lparr>q_nombre_pieces_min := Some (QStr [])\<rparr>)) =
        list_result (list_handler d (q\<lparr>q_nombre_pieces_min := None\<rparr>)))"
  by (intro conjI list_result_cong build_where_empty_string) simp_all

section \<open>Published records only\<close>

lemma set_limit_offset: "set (limit_offset l off xs) \<subseteq> set xs"
  unfolding limit_offset_def Let_def
  by (auto dest: in_set_takeD in_set_dropD)

lemma main_rows_match: "r \<in> set (main_rows d cs ps) \<Longrightarrow> row_matches cs ps (row_bien r)"
  by (auto simp: main_rows_def project_row_def)

lemma where_published:
  "row_matches (whereConditions q) (queryParams q) b \<Longrightarrow> statut_publication b = ''publie''"
  unfolding whereConditions_closed queryParams_closed
  by (simp add: row_matches_def cond_holds_def)

lemma list_rows_published:
  assumes "list_handler d q = List_ok rows n pg f" "r \<in> set rows"
  shows "statut_publication (row_bien r) = ''publie''"
proof -
  from assms(1) obtain l off where
    "rows = limit_offset l off (main_rows d (whereConditions q) (queryParams q))"
    by (auto simp: list_handler_def query_main_def mainParams_split Let_def
        split: sum.splits list.splits if_splits jsnum.splits)
  with assms(2) have "r \<in> set (main_rows d (whereConditions q) (queryParams q))"
    using set_limit_offset [of l off "main_rows d (whereConditions q) (queryParams q)"] by auto
  then show ?thesis by (blast dest: main_rows_match where_published)
qed

lemma detail_row_published:
  assumes "detail_handler d bienId = Detail_ok r photos"
  shows "statut_publication (detail_bien r) = ''publie''"
proof -
  from assms obtain n rest where rows:
    "query_detail d [PNum n, PVal (QStr ''publie'')] = Inr (r # rest)"
    by (auto simp: detail_handler_def Let_def split: if_splits sum.splits list.splits)
  then have "r \<in> set (map project_detail
                 (filter (\<lambda>bu. n = Fin (of_int (id_bien (fst bu))) \<and>
                                statut_publication (fst bu) = ''publie'')
                    (join_utilisateurs d (biens d))))"
    by (simp add: query_detail_def)
  then show ?thesis by (auto simp: project_detail_def)
qed

lemma ceiling_one_over_numeral: "\<lceil>1 / numeral b :: rat\<rceil> = 1"
  by (rule ceiling_unique) simp_all

lemmas list_eval =
  list_handler_def whereConditions_closed queryParams_closed bound_value_def query_count_def
  cond_accepts_def row_matches_def cond_holds_def mk_bien_def query_main_def mainParams_def
  limit_number_def page_number_def offset_def main_rows_def join_utilisateurs_def user_anne_def
  project_row_def select_photo_principale_def limit_offset_def js_number_def no_filters_def
  ceiling_one_over_numeral

lemmas parse_eval =
  parseInt_def parseFloat_def is_space_def is_digit_def digit_of_def digits_value_def
  exponent_part_def pow10_def js_number_def

lemma list_example:
  "list_handler db_example no_filters =
     List_ok [project_row db_example (mk_bien 1 1 ''Paris'' ''publie'' 10, user_anne)] 1
       \<lparr>pg_page = Fin 1, pg_limit = Fin 20, pg_total = 1, pg_pages = Fin 1\<rparr>
       \<lparr>f_ville = None, f_type_bien = None, f_statut = None, f_prix_min = None,
        f_prix_max = None, f_surface_min = None, f_nombre_pieces_min = None\<rparr>"
  by (simp add: list_eval db_example_def)

lemma detail_example:
  "detail_handler db_example ''1'' =
     Detail_ok (project_detail (mk_bien 1 1 ''Paris'' ''publie'' 10, user_anne)) []"
  by (simp add: detail_handler_def parse_eval query_detail_def db_example_def
        join_utilisateurs_def mk_bien_def user_anne_def query_photos_def)

text \<open>
  Claim C3. Every record in an answer of the list endpoint and the record in an answer
  of the detail endpoint has \<^verbatim>\<open>statut_publication = 'publie'\<close>, for every database,
  every request and every path parameter. The published-only predicate is the first
  conjunct of every WHERE clause of the list endpoint and \<^verbatim>\<open>'publie'\<close> its bound
  parameter; a request has no field that removes them.
\<close>

theorem public_endpoints_return_published_only:
  "(list_handler d q = List_ok rows n pg f \<longrightarrow>
      (\<forall>r\<in>set rows. statut_publication (row_bien r) = ''publie''))
   \<and> (detail_handler d bienId = Detail_ok r photos \<longrightarrow>
        statut_publication (detail_bien r) = ''publie'')
   \<and> hd (whereConditions q) = ''b.statut_publication = ?''
   \<and> hd (queryParams q) = PVal (QStr ''publie'')"
proof -
  have "hd (whereConditions q) = ''b.statut_publication = ?''"
    unfolding whereConditions_closed by (simp only: append_Cons list.sel)
  moreover have "hd (queryParams q) = PVal (QStr ''publie'')"
    unfolding queryParams_closed by (simp only: append_Cons list.sel)
  ultimately show ?thesis
    using list_rows_published [of d q rows n pg f] detail_row_published [of d bienId r photos]
    by blast
qed

theorem public_endpoints_return_published_only_witness:
  "list_handler db_example no_filters =
     List_ok [project_row db_example (mk_bien 1 1 ''Paris'' ''publie'' 10, user_anne)] 1
       \<lparr>pg_page = Fin 1, pg_limit = Fin 20, pg_total = 1, pg_pages = Fin 1\<rparr>
       \<lparr>f_ville = None, f_type_bien = None, f_statut = None, f_prix_min = None,
        f_prix_max = None, f_surface_min = None, f_nombre_pieces_min = None\<rparr>
   \<and> statut_publication
         (row_bien (project_row db_example (mk_bien 1 1 ''Paris'' ''publie'' 10, user_anne)))
       = ''publie''
   \<and> detail_handler db_example ''1'' =
       Detail_ok (project_detail (mk_bien 1 1 ''Paris'' ''publie'' 10, user_anne)) []
   \<and> statut_publication
         (detail_bien (project_detail (mk_bien 1 1 ''Paris'' ''publie'' 10, user_anne)))
       = ''publie''"
  using public_endpoints_return_published_only
          [of db_example no_filters
              "[project_row db_example (mk_bien 1 1 ''Paris'' ''publie'' 10, user_anne)]" 1
              "\<lparr>pg_page = Fin 1, pg_limit = Fin 20, pg_total = 1, pg_pages = Fin 1\<rparr>"
              "\<lparr>f_ville = None, f_type_bien = None, f_statut = None, f_prix_min = None,
                f_prix_max = None, f_surface_min = None, f_nombre_pieces_min = None\<rparr>"
              "''1''" "project_detail (mk_bien 1 1 ''Paris'' ''publie'' 10, user_anne)" "[]"]
        list_example detail_example
  by simp

section \<open>The count statement and the main statement\<close>






text \<open>
  Outside the data model: with a published property whose owner is not in
  \<^verbatim>\<open>utilisateurs\<close>, the count statement, which reads \<^verbatim>\<open>biens\<close> alone, counts a row
  that the join of the main statement drops. The hypothesis of the theorem below
  excludes such rows.
\<close>

lemma count_of_row_without_owner:
  "list_handler db_orphan no_filters =
     List_ok [] 1
       \<lparr>pg_page = Fin 1, pg_limit = Fin 20, pg_total = 1, pg_pages = Fin 1\<rparr>
       \<lparr>f_ville = None, f_type_bien = None, f_statut = None, f_prix_min = None,
        f_prix_max = None, f_surface_min = None, f_nombre_pieces_min = None\<rparr>
   \<and> main_rows db_orphan (whereConditions no_filters) (queryParams no_filters) = []"
  by (simp add: list_eval db_orphan_def)




section \<open>Pagination\<close>

lemma pow_bound: "(2::rat) ^ 106 < 2 ^ 1024 - 2 ^ 970" by simp

lemma js_number_small: "\<bar>r\<bar> \<le> 2 ^ 106 \<Longrightarrow> js_number r = Fin r"
proof -
  assume a: "\<bar>r\<bar> \<le> 2 ^ 106"
  from a pow_bound have "r < 2 ^ 1024 - 2 ^ 970" "- (2 ^ 1024 - 2 ^ 970) < r" by linarith+
  then show ?thesis by (simp only: js_number_def not_le [symmetric] if_False)
qed

lemma of_nat_small: "k \<le> 2 ^ 106 \<Longrightarrow> \<bar>of_nat k :: rat\<bar> \<le> 2 ^ 106"
proof -
  assume "k \<le> 2 ^ 106"
  then have "(of_nat k :: rat) \<le> of_nat (2 ^ 106)" by (rule of_nat_mono)
  then show ?thesis by simp
qed

lemma js_number_of_nat: "k \<le> 2 ^ 106 \<Longrightarrow> js_number (of_nat k) = Fin (of_nat k)"
  by (rule js_number_small) (rule of_nat_small)

lemma limit_offset_nat: "limit_offset (int n) (int k) xs = take n (drop k xs)"
  by (simp add: limit_offset_def)

lemma offset_nat:
  assumes "page_number q = Fin (of_nat p)" "limit_number q = Fin (of_nat n)"
      and "1 \<le> p" "p \<le> 2 ^ 53" "n \<le> 2 ^ 53"
  shows "offset q = Fin (of_nat ((p - 1) * n))"
proof -
  have p1: "(of_nat p :: rat) - 1 = of_nat (p - 1)" using assms(3) by (simp add: of_nat_diff)
  have "p - 1 \<le> 2 ^ 53" using assms(4) by simp
  then have "(p - 1) * n \<le> 2 ^ 53 * 2 ^ 53" using assms(5) by (rule mult_le_mono)
  then have k2: "(p - 1) * n \<le> 2 ^ 106" by simp
  have k1: "p - 1 \<le> 2 ^ 106" using assms(4) by simp
  have "js_sub (page_number q) (Fin 1) = Fin (of_nat (p - 1))"
    by (simp only: assms(1) js_sub.simps p1 js_number_of_nat [OF k1])
  then have "offset q = js_number (of_nat (p - 1) * of_nat n)"
    by (simp only: offset_def assms(2) js_mul.simps)
  also have "\<dots> = js_number (of_nat ((p - 1) * n))" by (simp only: of_nat_mult)
  also have "\<dots> = Fin (of_nat ((p - 1) * n))" by (rule js_number_of_nat [OF k2])
  finally show ?thesis .
qed

lemma pages_nat:
  assumes "1 \<le> n" "t \<le> 2 ^ 53"
  shows "js_ceil (js_div (Fin (of_nat t)) (Fin (of_nat n))) = Fin (of_int \<lceil>(of_nat t :: rat) / of_nat n\<rceil>)"
proof -
  have n1: "(1::rat) \<le> of_nat n" using assms(1) by simp
  have n0: "(0::rat) < of_nat n" using assms(1) by simp
  have "(of_nat t :: rat) * 1 \<le> of_nat t * of_nat n" using n1 by (intro mult_left_mono) simp_all
  then have le: "(of_nat t :: rat) / of_nat n \<le> of_nat t" using n0 by (simp add: pos_divide_le_eq)
  have "t \<le> 2 ^ 106" using assms(2) by (rule le_trans) simp
  then have "\<bar>of_nat t :: rat\<bar> \<le> 2 ^ 106" by (rule of_nat_small)
  moreover have "(0::rat) \<le> of_nat t / of_nat n" by simp
  ultimately have "\<bar>(of_nat t :: rat) / of_nat n\<bar> \<le> 2 ^ 106" using le by linarith
  then have "js_number ((of_nat t :: rat) / of_nat n) = Fin (of_nat t / of_nat n)" by (rule js_number_small)
  moreover have "(of_nat n :: rat) \<noteq> 0" using n0 by simp
  ultimately show ?thesis by (simp only: js_div.simps js_ceil.simps if_False)
qed

lemma isInteger_of_nat: "isInteger (Fin (of_nat k))"
  by simp

lemma list_pagination_metadata:
  assumes "list_handler d q = List_ok rows tot pg f"
  shows "pg_page pg = page_number q \<and> pg_limit pg = limit_number q \<and> pg_total pg = tot
       \<and> pg_pages pg = js_ceil (js_div (Fin (of_nat tot)) (limit_number q))"
  using assms
  by (auto simp: list_handler_def Let_def split: sum.splits)

lemma list_page_rows:
  assumes pn: "page_number q = Fin (of_nat p)" and ln: "limit_number q = Fin (of_nat n)"
      and p1: "1 \<le> p" and n1: "1 \<le> n" and pb: "p \<le> 2 ^ 53" and nb: "n \<le> 2 ^ 53"
      and db: "length (biens d) \<le> 2 ^ 53"
      and acc: "list_all2 cond_accepts (whereConditions q) (queryParams q)"
  shows "list_handler d q =
     List_ok (take n (drop ((p - 1) * n) (main_rows d (whereConditions q) (queryParams q))))
       (length (filter (row_matches (whereConditions q) (queryParams q)) (biens d)))
       \<lparr>pg_page = Fin (of_nat p), pg_limit = Fin (of_nat n),
        pg_total = length (filter (row_matches (whereConditions q) (queryParams q)) (biens d)),
        pg_pages = Fin (of_int \<lceil>(of_nat (length (filter (row_matches (whereConditions q)
                      (queryParams q)) (biens d))) :: rat) / of_nat n\<rceil>)\<rparr>
       \<lparr>f_ville = q_ville q, f_type_bien = q_type_bien q, f_statut = q_statut q,
        f_prix_min = q_prix_min q, f_prix_max = q_prix_max q,
        f_surface_min = q_surface_min q, f_nombre_pieces_min = q_nombre_pieces_min q\<rparr>"
proof -
  let ?t = "length (filter (row_matches (whereConditions q) (queryParams q)) (biens d))"
  have cnt: "query_count d (whereConditions q) (queryParams q) = Inr [?t]"
    using acc by (simp add: query_count_def)
  have off: "offset q = Fin (of_nat ((p - 1) * n))"
    using pn ln p1 pb nb by (rule offset_nat)
  have main: "query_main d (whereConditions q) (mainParams q) =
      Inr (take n (drop ((p - 1) * n) (main_rows d (whereConditions q) (queryParams q))))"
    using acc
    by (simp add: query_main_def mainParams_split ln off limit_offset_nat del: of_nat_mult)
  have "?t \<le> length (biens d)" by simp
  then have tb: "?t \<le> 2 ^ 53" using db by (rule le_trans)
  have pages: "js_ceil (js_div (Fin (of_nat ?t)) (Fin (of_nat n))) =
      Fin (of_int \<lceil>(of_nat ?t :: rat) / of_nat n\<rceil>)"
    using n1 tb by (rule pages_nat)
  show ?thesis
    unfolding list_handler_def cnt main
    by (simp only: sum.case list.case Let_def pages pn ln)
qed


text \<open>
  Claim C4. The main statement binds, after the parameters of the WHERE clause, the
  limit \<^verbatim>\<open>parseInt(limit)\<close> and the offset \<^verbatim>\<open>(parseInt(page) - 1) * parseInt(limit)\<close>;
  an absent page is 1, an absent limit is 20. The pagination of every answer holds the
  page, the limit, the total and \<^verbatim>\<open>Math.ceil(total / limit)\<close>. When the page \<open>p\<close>
  and the page size \<open>n\<close> are positive integers (safe integers, as the number of rows
  of the table) and the engine accepts the statement, the rows of the answer are rows
  \<open>(p - 1) * n + 1\<close> to \<open>p * n\<close> of the filtered, ordered rows (for \<open>p = 2\<close> and
  \<open>n = 10\<close>, rows 11 to 20), and the page count is the ceiling of \<open>total / n\<close>.
\<close>

theorem pagination_limit_offset_and_pages:
  "mainParams q =
     queryParams q @
     [PNum (limit_number q), PNum (js_mul (js_sub (page_number q) (Fin 1)) (limit_number q))]
   \<and> (q_page q = None \<longrightarrow> page_number q = Fin 1)
   \<and> (q_limit q = None \<longrightarrow> limit_number q = Fin 20)
   \<and> (q_page q = Some v \<longrightarrow> page_number q = parseInt (js_toString v))
   \<and> (q_limit q = Some w \<longrightarrow> limit_number q = parseInt (js_toString w))
   \<and> (list_handler d q = List_ok rows tot pg f \<longrightarrow>
        pg_page pg = page_number q \<and> pg_limit pg = limit_number q \<and> pg_total pg = tot \<and>
        pg_pages pg = js_ceil (js_div (Fin (of_nat tot)) (limit_number q)))
   \<and> (page_number q = Fin (of_nat p) \<and> limit_number q = Fin (of_nat n) \<and>
        1 \<le> p \<and> 1 \<le> n \<and> p \<le> 2 ^ 53 \<and> n \<le> 2 ^ 53 \<and> length (biens d) \<le> 2 ^ 53 \<and>
        list_all2 cond_accepts (whereConditions q) (queryParams q) \<longrightarrow>
        list_handler d q =
          List_ok (take n (drop ((p - 1) * n) (main_rows d (whereConditions q) (queryParams q))))
            (length (filter (row_matches (whereConditions q) (queryParams q)) (biens d)))
            \<lparr>pg_page = Fin (of_nat p), pg_limit = Fin (of_nat n),
             pg_total = length (filter (row_matches (whereConditions q) (queryParams q)) (biens d)),
             pg_pages = Fin (of_int \<lceil>(of_nat (length (filter (row_matches (whereConditions q)
                           (queryParams q)) (biens d))) :: rat) / of_nat n\<rceil>)\<rparr>
            \<lparr>f_ville = q_ville q, f_type_bien = q_type_bien q, f_statut = q_statut q,
             f_prix_min = q_prix_min q, f_prix_max = q_prix_max q,
             f_surface_min = q_surface_min q, f_nombre_pieces_min = q_nombre_pieces_min q\<rparr>)"
proof -
  have a: "mainParams q =
     queryParams q @
     [PNum (limit_number q), PNum (js_mul (js_sub (page_number q) (Fin 1)) (limit_number q))]"
    by (simp only: mainParams_def offset_def)
  have b: "(q_page q = None \<longrightarrow> page_number q = Fin 1)
         \<and> (q_limit q = None \<longrightarrow> limit_number q = Fin 20)
         \<and> (q_page q = Some v \<longrightarrow> page_number q = parseInt (js_toString v))
         \<and> (q_limit q = Some w \<longrightarrow> limit_number q = parseInt (js_toString w))"
    by (simp add: page_number_def limit_number_def)
  show ?thesis
    using a b list_pagination_metadata [of d q rows tot pg f] list_page_rows [of q p n d]
    by blast
qed

lemma ceiling_five_halves: "\<lceil>5 / 2 :: rat\<rceil> = 3"
  by (rule ceiling_unique) simp_all

theorem pagination_limit_offset_and_pages_witness:
  "page_number query_page2 = Fin 2 \<and> limit_number query_page2 = Fin 2
   \<and> list_handler db_five query_page2 =
       List_ok [project_row db_five (mk_bien 3 1 ''Nice'' ''publie'' 30, user_anne),
                project_row db_five (mk_bien 2 1 ''Lyon'' ''publie'' 20, user_anne)] 5
         \<lparr>pg_page = Fin 2, pg_limit = Fin 2, pg_total = 5, pg_pages = Fin 3\<rparr>
         \<lparr>f_ville = None, f_type_bien = None, f_statut = None, f_prix_min = None,
          f_prix_max = None, f_surface_min = None, f_nombre_pieces_min = None\<rparr>"
proof -
  have pn: "page_number query_page2 = Fin 2" "limit_number query_page2 = Fin 2"
    by (simp_all add: page_number_def limit_number_def query_page2_def no_filters_def parse_eval)
  have acc: "list_all2 cond_accepts (whereConditions query_page2) (queryParams query_page2)"
    by (simp add: whereConditions_closed queryParams_closed bound_value_def cond_accepts_def
          query_page2_def no_filters_def)
  have len: "length (biens db_five) \<le> 2 ^ 53"
    by (simp add: db_five_def)
  have rows: "main_rows db_five (whereConditions query_page2) (queryParams query_page2) =
     [project_row db_five (mk_bien 5 1 ''Brest'' ''publie'' 50, user_anne),
      project_row db_five (mk_bien 4 1 ''Lille'' ''publie'' 40, user_anne),
      project_row db_five (mk_bien 3 1 ''Nice'' ''publie'' 30, user_anne),
      project_row db_five (mk_bien 2 1 ''Lyon'' ''publie'' 20, user_anne),
      project_row db_five (mk_bien 1 1 ''Paris'' ''publie'' 10, user_anne)]"
    by (simp add: main_rows_def whereConditions_closed queryParams_closed bound_value_def
          row_matches_def cond_holds_def join_utilisateurs_def db_five_def mk_bien_def
          user_anne_def query_page2_def no_filters_def)
  have cnt: "length (filter (row_matches (whereConditions query_page2) (queryParams query_page2))
               (biens db_five)) = 5"
    by (simp add: whereConditions_closed queryParams_closed bound_value_def
          row_matches_def cond_holds_def db_five_def mk_bien_def query_page2_def no_filters_def)
  have echo: "q_ville query_page2 = None" "q_type_bien query_page2 = None"
    "q_statut query_page2 = None" "q_prix_min query_page2 = None" "q_prix_max query_page2 = None"
    "q_surface_min query_page2 = None" "q_nombre_pieces_min query_page2 = None"
    by (simp_all add: query_page2_def no_filters_def)
  have "list_handler db_five query_page2 =
       List_ok [project_row db_five (mk_bien 3 1 ''Nice'' ''publie'' 30, user_anne),
                project_row db_five (mk_bien 2 1 ''Lyon'' ''publie'' 20, user_anne)] 5
         \<lparr>pg_page = Fin 2, pg_limit = Fin 2, pg_total = 5, pg_pages = Fin 3\<rparr>
         \<lparr>f_ville = None, f_type_bien = None, f_statut = None, f_prix_min = None,
          f_prix_max = None, f_surface_min = None, f_nombre_pieces_min = None\<rparr>"
    using pagination_limit_offset_and_pages [of query_page2 _ _ db_five _ _ _ _ 2 2] pn acc len
    by (simp add: rows cnt echo ceiling_five_halves)
  with pn show ?thesis by simp
qed

section \<open>The predicates of the filters\<close>

lemma like_percent_any: "sql_like [CHR ''%''] s"
  by (induction s) simp_all

lemma like_no_wildcard_prefix:
  assumes "CHR ''%'' \<notin> set v" "CHR ''_'' \<notin> set v"
  shows "sql_like (v @ [CHR ''%'']) s = prefix (map lower_ascii v) (map lower_ascii s)"
  using assms
proof (induction v arbitrary: s)
  case Nil
  then show ?case by (simp add: like_percent_any)
next
  case (Cons a v)
  then show ?case by (cases s) auto
qed

lemma like_leading_percent:
  "sql_like (CHR ''%'' # p) s = (\<exists>t. suffix t s \<and> sql_like p t)"
proof (induction s)
  case Nil
  then show ?case by simp
next
  case (Cons c s)
  then show ?case by (auto simp: suffix_Cons)
qed

lemma suffix_map_iff:
  "(\<exists>u. suffix u (map f s) \<and> P u) = (\<exists>t. suffix t s \<and> P (map f t))"
proof
  assume "\<exists>u. suffix u (map f s) \<and> P u"
  then obtain u zs where "map f s = zs @ u" "P u" by (auto simp: suffix_def)
  then obtain s1 s2 where "s = s1 @ s2" "map f s2 = u"
    by (auto simp: map_eq_append_conv)
  with \<open>P u\<close> show "\<exists>t. suffix t s \<and> P (map f t)" by (auto simp: suffix_def)
next
  assume "\<exists>t. suffix t s \<and> P (map f t)"
  then obtain t where "suffix t s" "P (map f t)" by blast
  then show "\<exists>u. suffix u (map f s) \<and> P u" by (blast intro: map_mono_suffix)
qed

lemma like_substring:
  assumes "CHR ''%'' \<notin> set v" "CHR ''_'' \<notin> set v"
  shows "sql_like (''%'' @ v @ ''%'') s = sublist (map lower_ascii v) (map lower_ascii s)"
proof -
  have "sql_like (''%'' @ v @ ''%'') s = (\<exists>t. suffix t s \<and> sql_like (v @ [CHR ''%'']) t)"
    by (simp add: like_leading_percent)
  also have "\<dots> = (\<exists>t. suffix t s \<and> prefix (map lower_ascii v) (map lower_ascii t))"
    by (simp add: like_no_wildcard_prefix [OF assms])
  also have "\<dots> = (\<exists>u. suffix u (map lower_ascii s) \<and> prefix (map lower_ascii v) u)"
    by (rule suffix_map_iff [symmetric])
  also have "\<dots> = sublist (map lower_ascii v) (map lower_ascii s)"
    by (simp add: sublist_altdef')
  finally show ?thesis .
qed

lemma row_matches_append:
  "length cs = length ps \<Longrightarrow>
   row_matches (cs @ cs') (ps @ ps') b = (row_matches cs ps b \<and> row_matches cs' ps' b)"
  by (simp add: row_matches_def)

lemma row_matches_piece:
  "row_matches (if truthy f then [c] else []) (bound_value f mk) b =
     (\<forall>v. f = Some v \<and> truthy (Some v) \<longrightarrow> cond_holds c (mk v) b)"
  by (cases f) (auto simp: row_matches_def bound_value_def)

lemma length_piece: "length (if truthy f then [c] else []) = length (bound_value f mk)"
  by (simp add: length_bound_value)

lemma cond_holds_simps:
  "cond_holds ''b.statut_publication = ?'' (PVal (QStr s)) b = (statut_publication b = s)"
  "cond_holds ''b.ville LIKE ?'' (PVal (QStr s)) b = sql_like s (ville b)"
  "cond_holds ''b.type_bien = ?'' (PVal v) b = (v = QStr (type_bien b))"
  "cond_holds ''b.statut = ?'' (PVal v) b = (v = QStr (statut b))"
  "cond_holds ''b.prix >= ?'' (PNum n) b = js_le n (Fin (prix b))"
  "cond_holds ''b.prix <= ?'' (PNum n) b = js_le (Fin (prix b)) n"
  "cond_holds ''b.surface >= ?'' (PNum n) b = js_le n (Fin (surface b))"
  "cond_holds ''b.nombre_pieces >= ?'' (PNum n) b = js_le n (Fin (of_int (nombre_pieces b)))"
  by (auto simp: cond_holds_def split: qval.splits)

lemma row_matches_closed:
  "row_matches (whereConditions q) (queryParams q) b =
     (statut_publication b = ''publie''
      \<and> (\<forall>v. q_ville q = Some v \<and> truthy (Some v) \<longrightarrow>
             sql_like (''%'' @ js_toString v @ ''%'') (ville b))
      \<and> (\<forall>v. q_type_bien q = Some v \<and> truthy (Some v) \<longrightarrow> v = QStr (type_bien b))
      \<and> (\<forall>v. q_statut q = Some v \<and> truthy (Some v) \<longrightarrow> v = QStr (statut b))
      \<and> (\<forall>v. q_prix_min q = Some v \<and> truthy (Some v) \<longrightarrow>
             js_le (parseFloat (js_toString v)) (Fin (prix b)))
      \<and> (\<forall>v. q_prix_max q = Some v \<and> truthy (Some v) \<longrightarrow>
             js_le (Fin (prix b)) (parseFloat (js_toString v)))
      \<and> (\<forall>v. q_surface_min q = Some v \<and> truthy (Some v) \<longrightarrow>
             js_le (parseFloat (js_toString v)) (Fin (surface b)))
      \<and> (\<forall>v. q_nombre_pieces_min q = Some v \<and> truthy (Some v) \<longrightarrow>
             js_le (parseInt (js_toString v)) (Fin (of_int (nombre_pieces b)))))"
proof -
  have base: "row_matches [''b.statut_publication = ?''] [PVal (QStr ''publie'')] b =
      (statut_publication b = ''publie'')"
    by (simp add: row_matches_def cond_holds_simps)
  show ?thesis
    unfolding whereConditions_closed queryParams_closed
    by (simp only: row_matches_append length_piece row_matches_piece base cond_holds_simps
          list.size)
qed

text \<open>
  Claim C6, as stated, fails. The handler puts the city value between two \<^verbatim>\<open>%\<close>
  without escaping it, so a \<^verbatim>\<open>%\<close> or a \<^verbatim>\<open>_\<close> of the value is a wildcard of the
  pattern: the filter \<^verbatim>\<open>p_r\<close> matches the city \<^verbatim>\<open>Paris\<close>, of which it is not a
  substring, with or without regard to case.
\<close>

theorem city_filter_is_not_substring_test_counterexample:
  "row_matches (whereConditions query_wildcard) (queryParams query_wildcard)
      (mk_bien 1 1 ''Paris'' ''publie'' 10)
   \<and> \<not> sublist (map lower_ascii ''p_r'') (map lower_ascii ''Paris'')"
  by (simp add: row_matches_closed query_wildcard_def no_filters_def mk_bien_def lower_ascii_def
        sublist_Cons_right)


text \<open>
  Claim C6, amended. A row passes the WHERE clause of the list endpoint exactly when
  it is published and, for each present filter: its city matches the LIKE pattern
  made of the filter between two \<^verbatim>\<open>%\<close>; its \<^verbatim>\<open>type_bien\<close> and \<^verbatim>\<open>statut\<close> are
  equal to the filter; its price is at least \<^verbatim>\<open>parseFloat(prix_min)\<close> and at most
  \<^verbatim>\<open>parseFloat(prix_max)\<close>, its surface at least \<^verbatim>\<open>parseFloat(surface_min)\<close> and
  its number of rooms at least \<^verbatim>\<open>parseInt(nombre_pieces_min)\<close>. For a city value
  with no \<^verbatim>\<open>%\<close> and no \<^verbatim>\<open>_\<close>, the LIKE pattern matches a city exactly when the
  value is a substring of it without regard to the case of ASCII letters
  (\<^verbatim>\<open>par\<close> matches \<^verbatim>\<open>Paris\<close>).
\<close>

theorem list_filter_predicates:
  "row_matches (whereConditions q) (queryParams q) b =
     (statut_publication b = ''publie''
      \<and> (\<forall>v. q_ville q = Some v \<and> truthy (Some v) \<longrightarrow>
             sql_like (''%'' @ js_toString v @ ''%'') (ville b))
      \<and> (\<forall>v. q_type_bien q = Some v \<and> truthy (Some v) \<longrightarrow> v = QStr (type_bien b))
      \<and> (\<forall>v. q_statut q = Some v \<and> truthy (Some v) \<longrightarrow> v = QStr (statut b))
      \<and> (\<forall>v. q_prix_min q = Some v \<and> truthy (Some v) \<longrightarrow>
             js_le (parseFloat (js_toString v)) (Fin (prix b)))
      \<and> (\<forall>v. q_prix_max q = Some v \<and> truthy (Some v) \<longrightarrow>
             js_le (Fin (prix b)) (parseFloat (js_toString v)))
      \<and> (\<forall>v. q_surface_min q = Some v \<and> truthy (Some v) \<longrightarrow>
             js_le (parseFloat (js_toString v)) (Fin (surface b)))
      \<and> (\<forall>v. q_nombre_pieces_min q = Some v \<and> truthy (Some v) \<longrightarrow>
             js_le (parseInt (js_toString v)) (Fin (of_int (nombre_pieces b)))))
   \<and> (CHR ''%'' \<notin> set s \<and> CHR ''_'' \<notin> set s \<longrightarrow>
        sql_like (''%'' @ s @ ''%'') c = sublist (map lower_ascii s) (map lower_ascii c))"
  using row_matches_closed [of q b] like_substring [of s c] by blast

theorem list_filter_predicates_witness:
  "CHR ''%'' \<notin> set ''par'' \<and> CHR ''_'' \<notin> set ''par''
   \<and> sublist (map lower_ascii ''par'') (map lower_ascii ''Paris'')
   \<and> sql_like (''%'' @ ''par'' @ ''%'') ''Paris''
   \<and> row_matches (whereConditions query_par) (queryParams query_par)
        (mk_bien 1 1 ''Paris'' ''publie'' 10)"
proof -
  have nw: "CHR ''%'' \<notin> set ''par'' \<and> CHR ''_'' \<notin> set ''par''" by simp
  have sub: "sublist (map lower_ascii ''par'') (map lower_ascii ''Paris'')"
    by (simp add: lower_ascii_def sublist_Cons_right)
  note inst = list_filter_predicates [of query_par "mk_bien 1 1 ''Paris'' ''publie'' 10" "''par''" "''Paris''"]
  from inst nw sub have like: "sql_like (''%'' @ ''par'' @ ''%'') ''Paris''" by blast
  have q: "q_ville query_par = Some (QStr ''par'')" "q_type_bien query_par = None"
    "q_statut query_par = None" "q_prix_min query_par = None" "q_prix_max query_par = None"
    "q_surface_min query_par = None" "q_nombre_pieces_min query_par = None"
    by (simp_all add: query_par_def no_filters_def)
  have v: "ville (mk_bien 1 1 ''Paris'' ''publie'' 10) = ''Paris''"
    "statut_publication (mk_bien 1 1 ''Paris'' ''publie'' 10) = ''publie''"
    by (simp_all add: mk_bien_def)
  from inst like have "row_matches (whereConditions query_par) (queryParams query_par)
        (mk_bien 1 1 ''Paris'' ''publie'' 10)"
    by (simp add: q v)
  with nw sub like show ?thesis by blast
qed

section \<open>The path parameter of the detail endpoint\<close>

lemma detail_invalid_id:
  "isNaN (parseInt s) \<or> \<not> isInteger (parseInt s) \<or> js_le (parseInt s) (Fin 0) \<Longrightarrow>
   detail_handler d s = Detail_error 400 ID_invalide"
  by (simp add: detail_handler_def Let_def)

lemma detail_not_found:
  "\<not> (isNaN (parseInt s) \<or> \<not> isInteger (parseInt s) \<or> js_le (parseInt s) (Fin 0)) \<Longrightarrow>
   query_detail d [PNum (parseInt s), PVal (QStr ''publie'')] = Inr [] \<Longrightarrow>
   detail_handler d s = Detail_error 404 Bien_non_trouve"
  by (simp add: detail_handler_def Let_def)

text \<open>
  Claim C7: a path parameter that is not a positive integer is answered with 400. The
  handler tests \<^verbatim>\<open>parseInt(bienId)\<close>, which reads the leading digits and drops the
  rest, so \<^verbatim>\<open>1.5\<close> is read as 1 and the published property 1 is returned with
  status 200; \<^verbatim>\<open>7abc\<close> is read as 7 and answered with 404, not 400. The comment
  of line 167 and the message of line 172 say that the id must be an integer.
\<close>

theorem detail_accepts_non_integer_id:
  "parseInt ''1.5'' = Fin 1
   \<and> detail_handler db_example ''1.5'' =
       Detail_ok (project_detail (mk_bien 1 1 ''Paris'' ''publie'' 10, user_anne)) []
   \<and> detail_handler db_example ''1.5'' \<noteq> Detail_error 400 ID_invalide
   \<and> detail_handler db_example ''7abc'' = Detail_error 404 Bien_non_trouve"
  by (simp add: detail_handler_def parse_eval query_detail_def db_example_def
        join_utilisateurs_def mk_bien_def user_anne_def query_photos_def)

theorem detail_accepts_non_integer_id_witness:
  "detail_handler db_example ''1.5'' = detail_handler db_example ''1''"
  using detail_accepts_non_integer_id detail_example by simp

section \<open>Creation: validation before the INSERT\<close>

lemma isFloat_zero: "\<not> isFloat (Some (1 / 100)) None ''0''"
  by (simp add: isFloat_def float_format_def is_sign_def parse_eval)

lemma isFloat_cent: "isFloat (Some (1 / 100)) None ''0.01''"
  by (simp add: isFloat_def float_format_def is_sign_def parse_eval)

lemma in_check_field: "(e \<in> set (check_field k ok)) = (\<not> ok \<and> e = Invalid_field k)"
  by (simp add: check_field_def)

lemma prix_error_iff:
  "(Invalid_field ''prix'' \<in> set (bienValidation b)) =
     (\<not> isFloat (Some (1 / 100)) None (field_string b ''prix''))"
  by (simp add: bienValidation_def in_check_field)

lemma surface_error_iff:
  "(Invalid_field ''surface'' \<in> set (bienValidation b)) =
     (\<not> isFloat (Some (1 / 100)) None (field_string b ''surface''))"
  by (simp add: bienValidation_def in_check_field)

lemma post_route_invalid:
  "bienValidation b \<noteq> [] \<Longrightarrow>
   post_route u b dsp now d = (Validation_failed (bienValidation b), d)"
  by (simp add: post_route_def post_handler_def)

lemma prix_zero_rejected: "b ''prix'' = Some ''0'' \<Longrightarrow> Invalid_field ''prix'' \<in> set (bienValidation b)"
  by (simp add: prix_error_iff field_string_def isFloat_zero)

lemma surface_zero_rejected:
  "b ''surface'' = Some ''0'' \<Longrightarrow> Invalid_field ''surface'' \<in> set (bienValidation b)"
  by (simp add: surface_error_iff field_string_def isFloat_zero)

lemma prix_cent_accepted:
  "b ''prix'' = Some ''0.01'' \<Longrightarrow> Invalid_field ''prix'' \<notin> set (bienValidation b)"
  by (simp add: prix_error_iff field_string_def isFloat_cent)

lemma surface_cent_accepted:
  "b ''surface'' = Some ''0.01'' \<Longrightarrow> Invalid_field ''surface'' \<notin> set (bienValidation b)"
  by (simp add: surface_error_iff field_string_def isFloat_cent)

lemma prix_not_positive_rejected:
  "parseFloat (field_string b ''prix'') = Fin x \<Longrightarrow> x \<le> 0 \<Longrightarrow>
   Invalid_field ''prix'' \<in> set (bienValidation b)"
  by (simp add: prix_error_iff isFloat_def)

lemma surface_not_positive_rejected:
  "parseFloat (field_string b ''surface'') = Fin x \<Longrightarrow> x \<le> 0 \<Longrightarrow>
   Invalid_field ''surface'' \<in> set (bienValidation b)"
  by (simp add: surface_error_iff isFloat_def)

lemma post_route_changes_only_if_valid:
  "snd (post_route u b dsp now d) \<noteq> d \<Longrightarrow> bienValidation b = []"
proof (rule ccontr)
  assume a: "snd (post_route u b dsp now d) \<noteq> d" and "bienValidation b \<noteq> []"
  then have "snd (post_route u b dsp now d) = d"
    by (simp add: post_route_invalid)
  with a show False by simp
qed

text \<open>
  Claim C8. For a request that has passed the authentication middleware: the rule of
  \<^verbatim>\<open>prix\<close> fails on the value 0 and the rule of \<^verbatim>\<open>surface\<close> fails on the value
  0 (written \<^verbatim>\<open>0\<close> or in any other way, as every value that is not positive),
  each with an item for its field; both rules pass on the value 0.01. A request with a
  validation error is answered with status 400 and the items, and the database is left
  as it was: the INSERT is reached only when the validation result is empty.
\<close>

theorem create_validation_rejects_zero_accepts_cent:
  "(b ''prix'' = Some ''0'' \<longrightarrow> Invalid_field ''prix'' \<in> set (bienValidation b))
 \<and> (b ''surface'' = Some ''0'' \<longrightarrow> Invalid_field ''surface'' \<in> set (bienValidation b))
 \<and> (parseFloat (field_string b ''prix'') = Fin x \<and> x \<le> 0 \<longrightarrow>
      Invalid_field ''prix'' \<in> set (bienValidation b))
 \<and> (parseFloat (field_string b ''surface'') = Fin y \<and> y \<le> 0 \<longrightarrow>
      Invalid_field ''surface'' \<in> set (bienValidation b))
 \<and> (b ''prix'' = Some ''0.01'' \<longrightarrow> Invalid_field ''prix'' \<notin> set (bienValidation b))
 \<and> (b ''surface'' = Some ''0.01'' \<longrightarrow> Invalid_field ''surface'' \<notin> set (bienValidation b))
 \<and> (bienValidation b \<noteq> [] \<longrightarrow>
      post_route u b dsp now d = (Validation_failed (bienValidation b), d))
 \<and> (snd (post_route u b dsp now d) \<noteq> d \<longrightarrow> bienValidation b = [])"
proof -
  have x: "parseFloat (field_string b ''prix'') = Fin x \<and> x \<le> 0 \<longrightarrow>
      Invalid_field ''prix'' \<in> set (bienValidation b)"
    using prix_not_positive_rejected [of b x] by blast
  have y: "parseFloat (field_string b ''surface'') = Fin y \<and> y \<le> 0 \<longrightarrow>
      Invalid_field ''surface'' \<in> set (bienValidation b)"
    using surface_not_positive_rejected [of b y] by blast
  show ?thesis
    by (intro conjI impI x y prix_zero_rejected surface_zero_rejected prix_cent_accepted
          surface_cent_accepted post_route_invalid post_route_changes_only_if_valid)
qed

lemmas validator_eval =
  bienValidation_def check_field_def field_string_def trim_def isLength_def isIn_def
  isFloat_def isInt_def float_format_def int_format_def is_sign_def

lemma valid_body_passes: "bienValidation valid_body = []"
  by (simp add: validator_eval valid_body_def parse_eval)

lemma zero_prix_body_errors: "bienValidation zero_prix_body = [Invalid_field ''prix'']"
  by (simp add: validator_eval zero_prix_body_def valid_body_def parse_eval)

lemma column_values_valid:
  "column_values (sanitize_body valid_body) = Some (bien_fields.truncate created_row)"
  by (simp add: column_values_def sanitize_body_def valid_body_def field_string_def trim_def
       sql_numeric_def sql_integer_def float_format_def is_sign_def parse_eval created_row_def
       bien_fields.defs)

lemma post_valid:
  "post_route 1 valid_body ''brouillon'' 100 db_example =
     (Created (Some created_row), db_example\<lparr>biens := biens db_example @ [created_row]\<rparr>)"
  by (simp add: post_route_def post_handler_def valid_body_passes column_values_valid query_insert_def
        query_by_id_def id_matches_def first_row_def db_example_def mk_bien_def created_row_def
        bien_fields.defs bien.defs)

theorem create_validation_rejects_zero_accepts_cent_witness:
  "zero_prix_body ''prix'' = Some ''0''
   \<and> Invalid_field ''prix'' \<in> set (bienValidation zero_prix_body)
   \<and> post_route 1 zero_prix_body ''brouillon'' 100 db_example =
       (Validation_failed [Invalid_field ''prix''], db_example)
   \<and> zero_surface_body ''surface'' = Some ''0''
   \<and> Invalid_field ''surface'' \<in> set (bienValidation zero_surface_body)
   \<and> valid_body ''prix'' = Some ''0.01'' \<and> valid_body ''surface'' = Some ''0.01''
   \<and> bienValidation valid_body = []
   \<and> post_route 1 valid_body ''brouillon'' 100 db_example =
       (Created (Some created_row), db_example\<lparr>biens := biens db_example @ [created_row]\<rparr>)"
proof -
  have z1: "zero_prix_body ''prix'' = Some ''0''"
    by (simp add: zero_prix_body_def)
  have z2: "zero_surface_body ''surface'' = Some ''0''"
    by (simp add: zero_surface_body_def)
  have z3: "valid_body ''prix'' = Some ''0.01''"
    by (simp add: valid_body_def)
  have z4: "valid_body ''surface'' = Some ''0.01''"
    by (simp add: valid_body_def)
  note inst = create_validation_rejects_zero_accepts_cent
                [where b = zero_prix_body and u = 1 and dsp = "''brouillon''" and now = 100
                   and d = db_example]
  from inst z1 have a1: "Invalid_field ''prix'' \<in> set (bienValidation zero_prix_body)"
    by blast
  then have "bienValidation zero_prix_body \<noteq> []" by auto
  with inst have "post_route 1 zero_prix_body ''brouillon'' 100 db_example =
       (Validation_failed (bienValidation zero_prix_body), db_example)"
    by blast
  then have a2: "post_route 1 zero_prix_body ''brouillon'' 100 db_example =
       (Validation_failed [Invalid_field ''prix''], db_example)"
    by (simp only: zero_prix_body_errors)
  have b: "Invalid_field ''surface'' \<in> set (bienValidation zero_surface_body)"
    using create_validation_rejects_zero_accepts_cent [where b = zero_surface_body] z2
    by blast
  show ?thesis
    by (intro conjI z1 z2 z3 z4 a1 a2 b valid_body_passes post_valid)
qed

section \<open>Update: the frame of the UPDATE statement\<close>

lemma put_updated:
  assumes "put_handler errs bienId b d = (Updated r, d')"
  shows "\<exists>f. column_values b = Some f \<and>
           d' = d\<lparr>biens := map (\<lambda>r. if id_matches (PVal (QStr bienId)) (id_bien r)
                                    then set_fields f r else r) (biens d)\<rparr>"
proof (cases "column_values b")
  case None
  with assms show ?thesis
    by (simp add: put_handler_def query_update_def split: if_splits)
next
  case (Some f)
  with assms have "d' = d\<lparr>biens := map (\<lambda>r. if id_matches (PVal (QStr bienId)) (id_bien r)
                                    then set_fields f r else r) (biens d)\<rparr>"
    by (simp add: put_handler_def query_update_def split: if_splits sum.splits)
  with Some show ?thesis by simp
qed

lemma column_values_fields:
  assumes "column_values b = Some f"
  shows "b ''titre'' = Some (titre f) \<and> b ''description'' = Some (description f)
       \<and> b ''type_bien'' = Some (type_bien f) \<and> b ''statut'' = Some (statut f)
       \<and> Option.bind (b ''prix'') sql_numeric = Some (prix f)
       \<and> b ''modalite_paiement'' = Some (modalite_paiement f)
       \<and> Option.bind (b ''surface'') sql_numeric = Some (surface f)
       \<and> Option.bind (b ''nombre_pieces'') sql_integer = Some (nombre_pieces f)
       \<and> b ''adresse_complete'' = Some (adresse_complete f)
       \<and> b ''ville'' = Some (ville f) \<and> b ''code_postal'' = Some (code_postal f)
       \<and> Option.bind (b ''latitude'') sql_numeric = Some (latitude f)
       \<and> Option.bind (b ''longitude'') sql_numeric = Some (longitude f)"
  using assms
  by (auto simp: column_values_def bind_eq_Some_conv)

lemma set_fields_frame:
  "id_bien (set_fields f r) = id_bien r \<and> proprietaire_id (set_fields f r) = proprietaire_id r
   \<and> statut_publication (set_fields f r) = statut_publication r
   \<and> date_publication (set_fields f r) = date_publication r"
  by (simp add: set_fields_def)

lemma set_fields_values:
  "titre (set_fields f r) = titre f \<and> description (set_fields f r) = description f
   \<and> type_bien (set_fields f r) = type_bien f \<and> statut (set_fields f r) = statut f
   \<and> prix (set_fields f r) = prix f
   \<and> modalite_paiement (set_fields f r) = modalite_paiement f
   \<and> surface (set_fields f r) = surface f
   \<and> nombre_pieces (set_fields f r) = nombre_pieces f
   \<and> adresse_complete (set_fields f r) = adresse_complete f
   \<and> ville (set_fields f r) = ville f \<and> code_postal (set_fields f r) = code_postal f
   \<and> latitude (set_fields f r) = latitude f \<and> longitude (set_fields f r) = longitude f"
  by (simp add: set_fields_def)

text \<open>
  Claim C9. When the handler of \<^verbatim>\<open>PUT /:id\<close> answers with the updated record, the
  thirteen values \<open>f\<close> the UPDATE statement binds are those of \<^verbatim>\<open>req.body\<close> as the
  handler reads it, that is after the validation chain (the texts as they are, the
  numbers by their value). The tables
  \<^verbatim>\<open>utilisateurs\<close> and \<^verbatim>\<open>photos_biens\<close> are unchanged and \<^verbatim>\<open>biens\<close> has the
  same rows in the same order, where every row keeps its \<^verbatim>\<open>id\<close>,
  \<^verbatim>\<open>proprietaire_id\<close>, \<^verbatim>\<open>statut_publication\<close> and \<^verbatim>\<open>date_publication\<close>; a row
  whose id is the path parameter has its thirteen mutable fields replaced by \<open>f\<close>, and
  every other row is unchanged.
\<close>

theorem update_replaces_mutable_fields_only:
  assumes "put_handler errs bienId b d = (Updated r, d')"
  shows "\<exists>f::bien_fields.
       (b ''titre'' = Some (titre f) \<and> b ''description'' = Some (description f)
        \<and> b ''type_bien'' = Some (type_bien f) \<and> b ''statut'' = Some (statut f)
        \<and> Option.bind (b ''prix'') sql_numeric = Some (prix f)
        \<and> b ''modalite_paiement'' = Some (modalite_paiement f)
        \<and> Option.bind (b ''surface'') sql_numeric = Some (surface f)
        \<and> Option.bind (b ''nombre_pieces'') sql_integer = Some (nombre_pieces f)
        \<and> b ''adresse_complete'' = Some (adresse_complete f)
        \<and> b ''ville'' = Some (ville f) \<and> b ''code_postal'' = Some (code_postal f)
        \<and> Option.bind (b ''latitude'') sql_numeric = Some (latitude f)
        \<and> Option.bind (b ''longitude'') sql_numeric = Some (longitude f))
     \<and> length (biens d') = length (biens d)
     \<and> utilisateurs d' = utilisateurs d \<and> photos_biens d' = photos_biens d
     \<and> (\<forall>i<length (biens d).
          id_bien (biens d' ! i) = id_bien (biens d ! i)
          \<and> proprietaire_id (biens d' ! i) = proprietaire_id (biens d ! i)
          \<and> statut_publication (biens d' ! i) = statut_publication (biens d ! i)
          \<and> date_publication (biens d' ! i) = date_publication (biens d ! i)
          \<and> (if id_matches (PVal (QStr bienId)) (id_bien (biens d ! i))
              then titre (biens d' ! i) = titre f
                 \<and> description (biens d' ! i) = description f
                 \<and> type_bien (biens d' ! i) = type_bien f
                 \<and> statut (biens d' ! i) = statut f
                 \<and> prix (biens d' ! i) = prix f
                 \<and> modalite_paiement (biens d' ! i) = modalite_paiement f
                 \<and> surface (biens d' ! i) = surface f
                 \<and> nombre_pieces (biens d' ! i) = nombre_pieces f
                 \<and> adresse_complete (biens d' ! i) = adresse_complete f
                 \<and> ville (biens d' ! i) = ville f
                 \<and> code_postal (biens d' ! i) = code_postal f
                 \<and> latitude (biens d' ! i) = latitude f
                 \<and> longitude (biens d' ! i) = longitude f
              else biens d' ! i = biens d ! i))"
proof -
  from put_updated [OF assms] obtain f where cv: "column_values b = Some f"
    and d': "d' = d\<lparr>biens := map (\<lambda>r. if id_matches (PVal (QStr bienId)) (id_bien r)
                                    then set_fields f r else r) (biens d)\<rparr>"
    by blast
  have tables: "length (biens d') = length (biens d)"
    "utilisateurs d' = utilisateurs d" "photos_biens d' = photos_biens d"
    by (simp_all add: d')
  have rows: "biens d' ! i = (if id_matches (PVal (QStr bienId)) (id_bien (biens d ! i))
                              then set_fields f (biens d ! i) else biens d ! i)"
    if "i < length (biens d)" for i
    using that by (simp add: d')
  have frame: "id_bien (biens d' ! i) = id_bien (biens d ! i)
          \<and> proprietaire_id (biens d' ! i) = proprietaire_id (biens d ! i)
          \<and> statut_publication (biens d' ! i) = statut_publication (biens d ! i)
          \<and> date_publication (biens d' ! i) = date_publication (biens d ! i)
          \<and> (if id_matches (PVal (QStr bienId)) (id_bien (biens d ! i))
              then titre (biens d' ! i) = titre f
                 \<and> description (biens d' ! i) = description f
                 \<and> type_bien (biens d' ! i) = type_bien f
                 \<and> statut (biens d' ! i) = statut f
                 \<and> prix (biens d' ! i) = prix f
                 \<and> modalite_paiement (biens d' ! i) = modalite_paiement f
                 \<and> surface (biens d' ! i) = surface f
                 \<and> nombre_pieces (biens d' ! i) = nombre_pieces f
                 \<and> adresse_complete (biens d' ! i) = adresse_complete f
                 \<and> ville (biens d' ! i) = ville f
                 \<and> code_postal (biens d' ! i) = code_postal f
                 \<and> latitude (biens d' ! i) = latitude f
                 \<and> longitude (biens d' ! i) = longitude f
              else biens d' ! i = biens d ! i)"
    if "i < length (biens d)" for i
    unfolding rows [OF that]
    using set_fields_frame [of f "biens d ! i"] set_fields_values [of f "biens d ! i"]
    by (cases "id_matches (PVal (QStr bienId)) (id_bien (biens d ! i))") simp_all
  have all: "\<forall>i<length (biens d).
          id_bien (biens d' ! i) = id_bien (biens d ! i)
          \<and> proprietaire_id (biens d' ! i) = proprietaire_id (biens d ! i)
          \<and> statut_publication (biens d' ! i) = statut_publication (biens d ! i)
          \<and> date_publication (biens d' ! i) = date_publication (biens d ! i)
          \<and> (if id_matches (PVal (QStr bienId)) (id_bien (biens d ! i))
              then titre (biens d' ! i) = titre f
                 \<and> description (biens d' ! i) = description f
                 \<and> type_bien (biens d' ! i) = type_bien f
                 \<and> statut (biens d' ! i) = statut f
                 \<and> prix (biens d' ! i) = prix f
                 \<and> modalite_paiement (biens d' ! i) = modalite_paiement f
                 \<and> surface (biens d' ! i) = surface f
                 \<and> nombre_pieces (biens d' ! i) = nombre_pieces f
                 \<and> adresse_complete (biens d' ! i) = adresse_complete f
                 \<and> ville (biens d' ! i) = ville f
                 \<and> code_postal (biens d' ! i) = code_postal f
                 \<and> latitude (biens d' ! i) = latitude f
                 \<and> longitude (biens d' ! i) = longitude f
              else biens d' ! i = biens d ! i)"
    by (intro allI impI frame)
  show ?thesis
    by (rule exI [of _ f]) (rule conjI [OF column_values_fields [OF cv]
          conjI [OF tables(1) conjI [OF tables(2) conjI [OF tables(3) all]]]])
qed

lemma put_example:
  "put_handler [] ''1'' update_body db_example = (Updated (Some updated_row), db_updated)"
  by (simp add: put_handler_def query_update_def column_values_def update_body_def valid_body_def
        sql_numeric_def sql_integer_def float_format_def is_sign_def trim_def parse_eval
        id_matches_def set_fields_def db_example_def mk_bien_def updated_row_def db_updated_def
        query_by_id_def first_row_def)


theorem update_replaces_mutable_fields_only_witness:
  "put_handler [] ''1'' update_body db_example = (Updated (Some updated_row), db_updated)
   \<and> length (biens db_updated) = length (biens db_example)
   \<and> utilisateurs db_updated = utilisateurs db_example
   \<and> titre (biens db_updated ! 0) = ''Maison renovee''
   \<and> prix (biens db_updated ! 0) = 250000
   \<and> statut_publication (biens db_updated ! 0) = statut_publication (biens db_example ! 0)
   \<and> biens db_updated ! 1 = biens db_example ! 1"
proof -
  from update_replaces_mutable_fields_only [OF put_example]
  have len: "length (biens db_updated) = length (biens db_example)"
    by (elim exE conjE)
  from update_replaces_mutable_fields_only [OF put_example]
  have us: "utilisateurs db_updated = utilisateurs db_example"
    by (elim exE conjE)
  have rows: "titre (biens db_updated ! 0) = ''Maison renovee''"
    "prix (biens db_updated ! 0) = 250000"
    "statut_publication (biens db_updated ! 0) = statut_publication (biens db_example ! 0)"
    "biens db_updated ! 1 = biens db_example ! 1"
    by (simp_all add: db_updated_def db_example_def updated_row_def mk_bien_def)
  show ?thesis
    by (intro conjI put_example len us rows)
qed

end
